theory Spec2Isabelle
  imports
    Complex_Main
    "HOL-Library.Char_ord"
    "HOL-Library.List_Lexorder"
    "HOL-Library.Product_Lexorder"
    "HOL-Library.Sublist"
begin

section \<open>Datastore schema\<close>

text \<open>
  The fact table \<open>job_posting\<close> and the summary table \<open>days_to_hire_statistics\<close>, as the
  migrations declare them. A SQL \<open>NULL\<close> is \<open>None\<close>. The columns \<open>min_days\<close>, \<open>avg_days\<close>
  and \<open>max_days\<close> of the summary table are declared \<open>nullable=False\<close>, so a stored row
  carries plain numbers; numbers that SQL computes as \<open>double precision\<close> or \<open>numeric\<close> are
  exact rationals here. The surrogate key \<open>id\<close> of the summary table is assigned by the
  datastore and read nowhere in the code; it is not part of a row here. The column \<open>id\<close>
  of \<open>job_posting\<close> is \<open>posting_id\<close>.
\<close>

record job_posting =
  posting_id :: string
  title :: string
  standard_job_id :: string
  country_code :: "string option"
  days_to_hire :: "int option"

record days_to_hire_statistics =
  standard_job_id :: string
  country_code :: "string option"
  min_days :: rat
  avg_days :: rat
  max_days :: rat
  job_postings_number :: int

record database =
  tbl_job_posting :: "job_posting list"
  tbl_days_to_hire_statistics :: "days_to_hire_statistics list"

section \<open>SQL building blocks of the statistics queries\<close>

text \<open>
  \<open>a = b\<close> in a \<open>WHERE\<close> or \<open>ON\<close> clause holds only when both sides are non-null and equal.
\<close>

fun sql_eq :: "'a option \<Rightarrow> 'a option \<Rightarrow> bool" where
  "sql_eq (Some a) (Some b) = (a = b)"
| "sql_eq _ _ = False"

text \<open>
  \<open>NTILE(b)\<close> for the row with 0-based row number \<open>i\<close> in a partition of \<open>n\<close> rows: the first
  \<open>n mod b\<close> buckets hold \<open>n div b + 1\<close> rows, the others \<open>n div b\<close>.
\<close>

definition NTILE :: "nat \<Rightarrow> nat \<Rightarrow> nat \<Rightarrow> nat" where
  "NTILE b n i =
     (let q = n div b; r = n mod b in
      if i < r * (q + 1) then i div (q + 1) + 1
      else r + (i - r * (q + 1)) div q + 1)"

text \<open>
  \<open>percentile_cont(fraction) WITHIN GROUP (ORDER BY v)\<close>: the value at the continuous row
  number \<open>fraction * (N - 1)\<close> of the sorted values, interpolated linearly between the two
  neighbouring rows; NULL over no rows. The queries call it with the fractions 1/10 and
  9/10, for which both neighbouring rows exist.
\<close>

definition percentile_cont :: "rat \<Rightarrow> int list \<Rightarrow> rat option" where
  "percentile_cont fraction vals =
     (if vals = [] then None
      else
        let xs = sort vals;
            rn = fraction * of_nat (length xs - 1);
            lo = nat \<lfloor>rn\<rfloor>;
            hi = nat \<lceil>rn\<rceil>
        in Some (of_int (xs ! lo) + (rn - of_nat lo) * (of_int (xs ! hi) - of_int (xs ! lo))))"

text \<open>\<open>AVG\<close> skips NULLs and is NULL when nothing is left.\<close>

definition AVG :: "int option list \<Rightarrow> rat option" where
  "AVG vals =
     (let xs = [x. Some x \<leftarrow> vals] in
      if xs = [] then None else Some (of_int (sum_list xs) / of_nat (length xs)))"

text \<open>
  A row of the CTE \<open>ranked\<close>. \<open>grp\<close> holds the \<open>PARTITION BY\<close> columns:
  \<open>(standard_job_id, country_code)\<close> in the per-country query, \<open>standard_job_id\<close> in the
  global one.
\<close>

record 'k ranked =
  grp :: 'k
  days :: int
  total_count :: nat
  decile_low :: nat
  decile_high :: nat

text \<open>
  The window functions of \<open>ranked\<close>, computed row by row over the input \<open>seen @ x # rest\<close>.
  The row number of \<open>x\<close> in its partition under \<open>ORDER BY days_to_hire\<close> counts the partition's
  rows that sort before it; SQL leaves the order of rows with equal \<open>days_to_hire\<close> open, and
  the model takes them in table order, for the ascending and for the descending window alike.
\<close>

fun ranked_rows :: "('k \<times> int) list \<Rightarrow> ('k \<times> int) list \<Rightarrow> 'k ranked list" where
  "ranked_rows seen [] = []"
| "ranked_rows seen (x # rest) =
     (let part_seen = [y \<leftarrow> seen. fst y = fst x];
          part_rest = [y \<leftarrow> rest. fst y = fst x];
          n = length part_seen + 1 + length part_rest;
          row_asc = length [y \<leftarrow> part_seen. snd y \<le> snd x] + length [y \<leftarrow> part_rest. snd y < snd x];
          row_desc = length [y \<leftarrow> part_seen. snd y \<ge> snd x] + length [y \<leftarrow> part_rest. snd y > snd x]
      in \<lparr> grp = fst x, days = snd x, total_count = n,
           decile_low = NTILE 10 n row_asc, decile_high = NTILE 10 n row_desc \<rparr>)
     # ranked_rows (seen @ [x]) rest"

definition ranked_cte :: "('k \<times> int) list \<Rightarrow> 'k ranked list" where
  "ranked_cte rows = ranked_rows [] rows"

definition filtered_cte :: "'k ranked list \<Rightarrow> 'k ranked list" where
  "filtered_cte rs = [r \<leftarrow> rs. decile_low r > 1 \<and> decile_high r > 1]"

text \<open>\<open>r LEFT JOIN f ON cond\<close>: every match of \<open>r\<close>, or \<open>r\<close> once with a NULL partner.\<close>

definition LEFT_JOIN :: "'a list \<Rightarrow> 'b list \<Rightarrow> ('a \<Rightarrow> 'b \<Rightarrow> bool) \<Rightarrow> ('a \<times> 'b option) list" where
  "LEFT_JOIN rs fs cond =
     concat (map (\<lambda>r. case [f \<leftarrow> fs. cond r f] of
                         [] \<Rightarrow> [(r, None)]
                       | ms \<Rightarrow> map (\<lambda>f. (r, Some f)) ms) rs)"

text \<open>
  The body shared by \<open>COUNTRY_STATS_QUERY\<close> and \<open>GLOBAL_STATS_QUERY\<close>, which differ in the
  partition columns only. \<open>key_eq\<close> is the \<open>ON\<close> condition on the partition columns,
  \<open>order_key\<close> the \<open>ORDER BY\<close> key, \<open>rows\<close> the postings with non-null \<open>days_to_hire\<close> as
  (partition columns, \<open>days_to_hire\<close>).

  \<open>joined_rows\<close> is the \<open>FROM\<close> clause: \<open>ranked r LEFT JOIN filtered f\<close> on the partition
  columns and on \<open>days_to_hire\<close>.
\<close>

definition joined_rows ::
  "('k \<Rightarrow> 'k \<Rightarrow> bool) \<Rightarrow> ('k \<times> int) list \<Rightarrow> ('k ranked \<times> 'k ranked option) list" where
  "joined_rows key_eq rows =
     (let rs = ranked_cte rows;
          fs = filtered_cte rs
      in LEFT_JOIN rs fs (\<lambda>r f. key_eq (grp r) (grp f) \<and> days r = days f))"

text \<open>
  The \<open>SELECT\<close> list for the group \<open>g\<close> of \<open>GROUP BY\<close>: the partition columns,
  \<open>total_count\<close>, \<open>min_days\<close>, \<open>avg_days\<close> and \<open>max_days\<close>, aggregated over the joined rows
  of the group.
\<close>

definition group_row ::
  "('k ranked \<times> 'k ranked option) list \<Rightarrow> 'k \<times> nat
     \<Rightarrow> 'k \<times> nat \<times> rat option \<times> rat option \<times> rat option" where
  "group_row joined g =
     (let members = [(r, f) \<leftarrow> joined. (grp r, total_count r) = g]
      in (fst g, snd g,
          percentile_cont (1 / 10) (map (\<lambda>(r, f). days r) members),
          AVG (map (\<lambda>(r, f). map_option days f) members),
          percentile_cont (9 / 10) (map (\<lambda>(r, f). days r) members)))"

definition stats_query ::
  "('k \<Rightarrow> 'k \<Rightarrow> bool) \<Rightarrow> ('k \<Rightarrow> 'o::linorder) \<Rightarrow> ('k \<times> int) list \<Rightarrow> int
     \<Rightarrow> ('k \<times> nat \<times> rat option \<times> rat option \<times> rat option) list" where
  "stats_query key_eq order_key rows min_postings =
     (let joined = joined_rows key_eq rows;
          groups = remdups (map (\<lambda>(r, f). (grp r, total_count r)) joined);
          having = [g \<leftarrow> groups. int (snd g) \<ge> min_postings]
      in map (group_row joined) (sort_key (\<lambda>g. order_key (fst g)) having))"

text \<open>
  \<open>FROM job_posting WHERE days_to_hire IS NOT NULL\<close>, each posting reduced to its partition
  columns \<open>cols\<close> and its \<open>days_to_hire\<close>.
\<close>

definition job_posting_rows :: "(job_posting \<Rightarrow> 'k) \<Rightarrow> job_posting list \<Rightarrow> ('k \<times> int) list" where
  "job_posting_rows cols ps = [(cols p, d). p \<leftarrow> ps, Some d \<leftarrow> [days_to_hire p]]"

text \<open>
  \<open>ORDER BY standard_job_id, country_code\<close>: ascending, NULLs last; the collation is taken
  to be the order of the character codes.
\<close>

definition COUNTRY_STATS_QUERY ::
  "database \<Rightarrow> int \<Rightarrow> ((string \<times> string option) \<times> nat \<times> rat option \<times> rat option \<times> rat option) list" where
  "COUNTRY_STATS_QUERY db min_postings =
     stats_query
       (\<lambda>(j, c) (j', c'). j = j' \<and> sql_eq c c')
       (\<lambda>(j, c). (j, c = None, case c of None \<Rightarrow> [] | Some s \<Rightarrow> s))
       (job_posting_rows (\<lambda>p. (job_posting.standard_job_id p, job_posting.country_code p))
          (tbl_job_posting db))
       min_postings"

definition GLOBAL_STATS_QUERY ::
  "database \<Rightarrow> int \<Rightarrow> (string \<times> nat \<times> rat option \<times> rat option \<times> rat option) list" where
  "GLOBAL_STATS_QUERY db min_postings =
     stats_query
       (\<lambda>j j'. j = j')
       (\<lambda>j. j)
       (job_posting_rows job_posting.standard_job_id (tbl_job_posting db))
       min_postings"

section \<open>The aggregation run\<close>

text \<open>
  Modelled from the spec: the ORM class \<open>DaysToHireStatistics\<close> of \<open>home_task.models\<close> is not
  among the sources. Its attributes are those of the specification's StatisticsRecord,
  under the names that the constructor calls of the run and the columns of the migration
  give them (\<open>id\<close> is \<open>None\<close> in every call and is left out). The three statistics of an
  object are whatever the query returned, NULL included.
\<close>

record DaysToHireStatistics =
  standard_job_id :: string
  country_code :: "string option"
  min_days :: "rat option"
  avg_days :: "rat option"
  max_days :: "rat option"
  job_postings_number :: int

text \<open>
  A session of \<open>get_session\<close> (\<open>autocommit=False\<close>, \<open>autoflush=False\<close>): the committed
  database, the summary table as the open transaction sees it, and the objects handed to
  \<open>add_all\<close> that are not yet flushed.
\<close>

record session =
  committed :: database
  working :: "days_to_hire_statistics list"
  new_objects :: "DaysToHireStatistics list"

definition get_session :: "database \<Rightarrow> session" where
  "get_session db =
     \<lparr> committed = db, working = tbl_days_to_hire_statistics db, new_objects = [] \<rparr>"

text \<open>
  The datastore calls of a run, in the order the run makes them. A run is modelled together
  with at most one datastore fault: the call at which the datastore raises.
\<close>

datatype datastore_call =
  DeleteStatistics | CommitDelete | CountryQuery | GlobalQuery | CommitInsert

datatype db_error = OperationalError | IntegrityError

text \<open>
  The \<open>INSERT\<close> of one object: the NOT NULL columns \<open>min_days\<close>, \<open>avg_days\<close> and \<open>max_days\<close>
  refuse a NULL.
\<close>

definition insert_row :: "DaysToHireStatistics \<Rightarrow> days_to_hire_statistics option" where
  "insert_row obj =
     (case (min_days obj, avg_days obj, max_days obj) of
        (Some mn, Some av, Some mx) \<Rightarrow>
          Some \<lparr> days_to_hire_statistics.standard_job_id = standard_job_id obj,
                 country_code = country_code obj,
                 min_days = mn, avg_days = av, max_days = mx,
                 job_postings_number = job_postings_number obj \<rparr>
      | _ \<Rightarrow> None)"

text \<open>
  \<open>session.commit()\<close>: flush the pending objects, then make the transaction's view the
  committed table. A failure leaves the committed database as it was.
\<close>

definition commit :: "datastore_call option \<Rightarrow> datastore_call \<Rightarrow> session \<Rightarrow> session \<times> db_error option" where
  "commit fault call s =
     (if fault = Some call then (s, Some OperationalError)
      else case those (map insert_row (new_objects s)) of
             None \<Rightarrow> (s, Some IntegrityError)
           | Some rows \<Rightarrow>
               (s\<lparr> committed := (committed s)\<lparr> tbl_days_to_hire_statistics := working s @ rows \<rparr>,
                   working := working s @ rows,
                   new_objects := [] \<rparr>, None))"

definition clear_existing_statistics :: "datastore_call option \<Rightarrow> session \<Rightarrow> session \<times> db_error option" where
  "clear_existing_statistics fault s =
     (if fault = Some DeleteStatistics then (s, Some OperationalError)
      else commit fault CommitDelete (s\<lparr> working := [] \<rparr>))"

definition calculate_country_statistics ::
  "datastore_call option \<Rightarrow> session \<Rightarrow> int \<Rightarrow> db_error + DaysToHireStatistics list" where
  "calculate_country_statistics fault s min_postings =
     (if fault = Some CountryQuery then Inl OperationalError
      else Inr (map (\<lambda>((job, country), total, mn, av, mx).
                  \<lparr> standard_job_id = job, country_code = country,
                    min_days = mn, avg_days = av, max_days = mx,
                    job_postings_number = int total \<rparr>)
                (COUNTRY_STATS_QUERY (committed s) min_postings)))"

definition calculate_global_statistics ::
  "datastore_call option \<Rightarrow> session \<Rightarrow> int \<Rightarrow> db_error + DaysToHireStatistics list" where
  "calculate_global_statistics fault s min_postings =
     (if fault = Some GlobalQuery then Inl OperationalError
      else Inr (map (\<lambda>(job, total, mn, av, mx).
                  \<lparr> standard_job_id = job, country_code = None,
                    min_days = mn, avg_days = av, max_days = mx,
                    job_postings_number = int total \<rparr>)
                (GLOBAL_STATS_QUERY (committed s) min_postings)))"

definition insert_statistics :: "session \<Rightarrow> DaysToHireStatistics list \<Rightarrow> session" where
  "insert_statistics s statistics = s\<lparr> new_objects := new_objects s @ statistics \<rparr>"

definition process_job_postings :: "datastore_call option \<Rightarrow> session \<Rightarrow> int \<Rightarrow> session \<times> db_error option" where
  "process_job_postings fault s min_postings =
     (case clear_existing_statistics fault s of
        (s1, Some e) \<Rightarrow> (s1, Some e)
      | (s1, None) \<Rightarrow>
          (case calculate_country_statistics fault s1 min_postings of
             Inl e \<Rightarrow> (s1, Some e)
           | Inr country_stats \<Rightarrow>
               let s2 = insert_statistics s1 country_stats in
               (case calculate_global_statistics fault s2 min_postings of
                  Inl e \<Rightarrow> (s2, Some e)
                | Inr global_stats \<Rightarrow>
                    commit fault CommitInsert (insert_statistics s2 global_stats))))"

text \<open>
  \<open>main\<close>: the run inside \<open>with get_session() as session\<close>. Leaving the block closes the
  session, which drops whatever was not committed; an error is passed on to the caller.
  The result is the database afterwards and the error, if any.
\<close>

definition main :: "datastore_call option \<Rightarrow> database \<Rightarrow> int \<Rightarrow> database \<times> db_error option" where
  "main fault db min_postings =
     (case process_job_postings fault (get_session db) min_postings of
        (s, outcome) \<Rightarrow> (committed s, outcome))"

section \<open>The statistics API\<close>

text \<open>
  What a request handler finds behind \<open>get_session\<close>: the database, or a datastore whose
  calls raise an exception with the given text.
\<close>

datatype datastore = Up database | Down string

record HTTPException =
  status_code :: nat
  detail :: string

record StatisticsResponse =
  standard_job_id :: string
  country_code :: "string option"
  min_days :: rat
  avg_days :: rat
  max_days :: rat
  job_postings_number :: int

text \<open>
  A \<open>str\<close> is held as the bytes of its UTF-8 encoding, the form in which the datastore
  stores and compares it; a byte string that is not valid UTF-8 stands for no \<open>str\<close>.
  \<open>whitespace\<close> lists the encodings of the code points that \<open>str.strip()\<close> removes: U+0009
  to U+000D, U+001C to U+0020, U+0085, U+00A0, U+1680, U+2000 to U+200A, U+2028, U+2029,
  U+202F, U+205F and U+3000.
\<close>

definition whitespace :: "string list" where
  "whitespace =
     [[CHR 0x09], [CHR 0x0A], [CHR 0x0B], [CHR 0x0C], [CHR 0x0D],
      [CHR 0x1C], [CHR 0x1D], [CHR 0x1E], [CHR 0x1F], [CHR 0x20],
      [CHR 0xC2, CHR 0x85], [CHR 0xC2, CHR 0xA0],
      [CHR 0xE1, CHR 0x9A, CHR 0x80],
      [CHR 0xE2, CHR 0x80, CHR 0x80], [CHR 0xE2, CHR 0x80, CHR 0x81],
      [CHR 0xE2, CHR 0x80, CHR 0x82], [CHR 0xE2, CHR 0x80, CHR 0x83],
      [CHR 0xE2, CHR 0x80, CHR 0x84], [CHR 0xE2, CHR 0x80, CHR 0x85],
      [CHR 0xE2, CHR 0x80, CHR 0x86], [CHR 0xE2, CHR 0x80, CHR 0x87],
      [CHR 0xE2, CHR 0x80, CHR 0x88], [CHR 0xE2, CHR 0x80, CHR 0x89],
      [CHR 0xE2, CHR 0x80, CHR 0x8A],
      [CHR 0xE2, CHR 0x80, CHR 0xA8], [CHR 0xE2, CHR 0x80, CHR 0xA9],
      [CHR 0xE2, CHR 0x80, CHR 0xAF], [CHR 0xE2, CHR 0x81, CHR 0x9F],
      [CHR 0xE3, CHR 0x80, CHR 0x80]]"

text \<open>
  Removing the leading characters of a string for as long as one of the given encodings
  starts it. \<open>str.strip()\<close> does so from the left and then, on what is left, from the
  right.
\<close>

function strip_words :: "string list \<Rightarrow> string \<Rightarrow> string" where
  "strip_words ws s =
     (case find (\<lambda>w. w \<noteq> [] \<and> prefix w s) ws of
        None \<Rightarrow> s
      | Some w \<Rightarrow> strip_words ws (drop (length w) s))"
  by pat_completeness auto
termination
  by (relation "measure (\<lambda>(ws, s). length s)") (auto simp: find_Some_iff prefix_def)

declare strip_words.simps [simp del]

definition lstrip :: "string \<Rightarrow> string" where
  "lstrip s = strip_words whitespace s"

definition rstrip :: "string \<Rightarrow> string" where
  "rstrip s = rev (strip_words (map rev whitespace) (rev s))"

definition strip :: "string \<Rightarrow> string" where
  "strip s = rstrip (lstrip s)"

text \<open>The truth value of an \<open>Optional[str]\<close>: \<open>None\<close> and the empty string are false.\<close>

fun truthy :: "string option \<Rightarrow> bool" where
  "truthy None = False"
| "truthy (Some s) = (s \<noteq> [])"

fun fetchone :: "'a list \<Rightarrow> 'a option" where
  "fetchone [] = None"
| "fetchone (row # _) = Some row"

text \<open>
  \<open>session.execute(query, params)\<close> on a datastore that is up. A PostgreSQL text value
  cannot hold the character NUL, and the database driver raises an exception for a bound
  string that holds one; otherwise the rows of the query come back. The driver is a
  library outside the repository: \<open>refusal\<close> stands for the text of its exception.
\<close>

definition execute :: "string \<Rightarrow> string list \<Rightarrow> 'a list \<Rightarrow> string + 'a list" where
  "execute refusal params rows =
     (if CHR 0x00 \<in> set (concat params) then Inl refusal else Inr rows)"

definition get_statistics ::
  "string \<Rightarrow> datastore \<Rightarrow> string \<Rightarrow> string option \<Rightarrow> HTTPException + StatisticsResponse" where
  "get_statistics refusal ds job country =
     (if job = [] \<or> strip job = [] then
        Inl \<lparr> status_code = 400,
              detail = ''standard_job_id parameter is required and cannot be empty'' \<rparr>
      else
        case ds of
          Down e \<Rightarrow>
            Inl \<lparr> status_code = 500,
                  detail = ''Internal server error while retrieving statistics: '' @ e \<rparr>
        | Up db \<Rightarrow>
            (case (if truthy country then
                     execute refusal [job, the country]
                       [row \<leftarrow> tbl_days_to_hire_statistics db.
                          days_to_hire_statistics.standard_job_id row = job \<and>
                          sql_eq (days_to_hire_statistics.country_code row) country]
                   else
                     execute refusal [job]
                       [row \<leftarrow> tbl_days_to_hire_statistics db.
                          days_to_hire_statistics.standard_job_id row = job \<and>
                          days_to_hire_statistics.country_code row = None]) of
               Inl e \<Rightarrow>
                 Inl \<lparr> status_code = 500,
                       detail = ''Internal server error while retrieving statistics: '' @ e \<rparr>
             | Inr result \<Rightarrow>
                 (case fetchone result of
                    None \<Rightarrow>
                      Inl \<lparr> status_code = 404,
                            detail =
                              (if truthy country then
                                 ''No statistics found for standard_job_id '' @ [CHR 0x27] @ job
                                   @ [CHR 0x27] @ '' and country_code '' @ [CHR 0x27]
                                   @ the country @ [CHR 0x27]
                               else
                                 ''No global statistics found for standard_job_id '' @ [CHR 0x27]
                                   @ job @ [CHR 0x27]) \<rparr>
                  | Some row \<Rightarrow>
                      Inr \<lparr> standard_job_id = days_to_hire_statistics.standard_job_id row,
                            country_code = days_to_hire_statistics.country_code row,
                            min_days = days_to_hire_statistics.min_days row,
                            avg_days = days_to_hire_statistics.avg_days row,
                            max_days = days_to_hire_statistics.max_days row,
                            job_postings_number =
                              days_to_hire_statistics.job_postings_number row \<rparr>)))"

text \<open>\<open>health_check\<close> returns its dictionary whatever the datastore is.\<close>

definition health_check :: "datastore \<Rightarrow> HTTPException + (string \<times> string) list" where
  "health_check ds =
     Inr [(''status'', ''healthy''), (''service'', ''days-to-hire-statistics-api'')]"

section \<open>Notions used to state the properties\<close>

text \<open>The response that \<open>get_statistics\<close> builds from a stored row.\<close>

definition response_of :: "days_to_hire_statistics \<Rightarrow> StatisticsResponse" where
  "response_of row =
     \<lparr> standard_job_id = days_to_hire_statistics.standard_job_id row,
       country_code = days_to_hire_statistics.country_code row,
       min_days = days_to_hire_statistics.min_days row,
       avg_days = days_to_hire_statistics.avg_days row,
       max_days = days_to_hire_statistics.max_days row,
       job_postings_number = days_to_hire_statistics.job_postings_number row \<rparr>"

text \<open>
  The \<open>country_code\<close> that a lookup compares with: an omitted and an empty parameter both
  stand for NULL, the global row.
\<close>

definition lookup_key :: "string option \<Rightarrow> string option" where
  "lookup_key country = (if country = Some [] then None else country)"

text \<open>The stored rows with exactly the key \<open>(job, lookup_key country)\<close>.\<close>

definition matching :: "database \<Rightarrow> string \<Rightarrow> string option \<Rightarrow> days_to_hire_statistics list" where
  "matching db job country =
     [row \<leftarrow> tbl_days_to_hire_statistics db.
        days_to_hire_statistics.standard_job_id row = job \<and>
        days_to_hire_statistics.country_code row = lookup_key country]"

text \<open>
  A string that is empty or consists of whitespace characters only: a sequence of
  encodings of whitespace code points.
\<close>

definition only_whitespace :: "string \<Rightarrow> bool" where
  "only_whitespace s = (\<exists>ws. set ws \<subseteq> set whitespace \<and> concat ws = s)"

text \<open>
  A request whose lookup binds a string that holds NUL: the job, or the country code that
  the lookup compares with.
\<close>

definition holds_nul :: "string \<Rightarrow> string option \<Rightarrow> bool" where
  "holds_nul job country =
     (CHR 0x00 \<in> set job \<or>
      (case lookup_key country of None \<Rightarrow> False | Some c \<Rightarrow> CHR 0x00 \<in> set c))"

text \<open>The key of a stored row.\<close>

definition row_key :: "days_to_hire_statistics \<Rightarrow> string \<times> string option" where
  "row_key row =
     (days_to_hire_statistics.standard_job_id row, days_to_hire_statistics.country_code row)"


text \<open>
  The records a run computes from the fact table: the country-specific ones followed by
  the global ones.
\<close>

definition new_snapshot :: "database \<Rightarrow> int \<Rightarrow> DaysToHireStatistics list" where
  "new_snapshot db min_postings =
     (case (calculate_country_statistics None (get_session db) min_postings,
            calculate_global_statistics None (get_session db) min_postings) of
        (Inr country_stats, Inr global_stats) \<Rightarrow> country_stats @ global_stats
      | _ \<Rightarrow> [])"

text \<open>The two halves of \<open>new_snapshot\<close>.\<close>

definition country_records :: "database \<Rightarrow> int \<Rightarrow> DaysToHireStatistics list" where
  "country_records db min_postings =
     (case calculate_country_statistics None (get_session db) min_postings of
        Inr country_stats \<Rightarrow> country_stats | Inl e \<Rightarrow> [])"

definition global_records :: "database \<Rightarrow> int \<Rightarrow> DaysToHireStatistics list" where
  "global_records db min_postings =
     (case calculate_global_statistics None (get_session db) min_postings of
        Inr global_stats \<Rightarrow> global_stats | Inl e \<Rightarrow> [])"

text \<open>The size of the partition \<open>k\<close> among the input rows of a statistics query.\<close>

definition partition_count :: "('k \<times> int) list \<Rightarrow> 'k \<Rightarrow> nat" where
  "partition_count rows k = length [y \<leftarrow> rows. fst y = k]"

text \<open>The groups of a statistics query before \<open>HAVING\<close>: partition columns and \<open>total_count\<close>.\<close>

definition query_groups ::
  "('k \<Rightarrow> 'k \<Rightarrow> bool) \<Rightarrow> ('k \<times> int) list \<Rightarrow> ('k \<times> nat) list" where
  "query_groups key_eq rows =
     remdups (map (\<lambda>(r, f). (grp r, total_count r)) (joined_rows key_eq rows))"

text \<open>
  The number of postings with a non-null \<open>days_to_hire\<close> behind a key of the summary table:
  those of the job in the given country, or, for the NULL country code of the global
  record, all those of the job.
\<close>

definition postings_count :: "database \<Rightarrow> string \<Rightarrow> string option \<Rightarrow> nat" where
  "postings_count db job country =
     length [p \<leftarrow> tbl_job_posting db.
               days_to_hire p \<noteq> None \<and> job_posting.standard_job_id p = job \<and>
               (case country of None \<Rightarrow> True | Some c \<Rightarrow> job_posting.country_code p = Some c)]"

text \<open>
  The statistics that the specification asks for, from the input rows of a query: the
  percentiles of the partition itself, and the plain mean of the partition's rows outside
  both extreme deciles.
\<close>

definition spec_percentile :: "rat \<Rightarrow> ('k \<times> int) list \<Rightarrow> 'k \<Rightarrow> rat option" where
  "spec_percentile fraction rows k = percentile_cont fraction [snd y. y \<leftarrow> rows, fst y = k]"

definition spec_kept :: "('k \<times> int) list \<Rightarrow> 'k \<Rightarrow> int list" where
  "spec_kept rows k = [days r. r \<leftarrow> filtered_cte (ranked_cte rows), grp r = k]"

definition spec_avg_days :: "('k \<times> int) list \<Rightarrow> 'k \<Rightarrow> rat option" where
  "spec_avg_days rows k = AVG (map Some (spec_kept rows k))"

section \<open>Example data\<close>

definition example_statistics :: "days_to_hire_statistics list" where
  "example_statistics =
     [\<lparr> days_to_hire_statistics.standard_job_id = ''job1'', country_code = Some ''US'',
         min_days = 19, avg_days = 55, max_days = 91, job_postings_number = 10 \<rparr>,
      \<lparr> days_to_hire_statistics.standard_job_id = ''job1'', country_code = None,
         min_days = 12, avg_days = 40, max_days = 80, job_postings_number = 25 \<rparr>]"

definition example_store :: database where
  "example_store = \<lparr> tbl_job_posting = [], tbl_days_to_hire_statistics = example_statistics \<rparr>"

definition posting :: "string \<Rightarrow> string option \<Rightarrow> int \<Rightarrow> job_posting" where
  "posting job country d =
     \<lparr> posting_id = ''p'', title = ''t'', job_posting.standard_job_id = job,
       country_code = country, days_to_hire = Some d \<rparr>"

text \<open>The postings of \<open>test_cli_correct_statistics\<close>, over an earlier snapshot.\<close>

definition example_db :: database where
  "example_db =
     \<lparr> tbl_job_posting =
         map (posting ''job2'' (Some ''DE'')) [10, 20, 30, 40, 50, 60, 70, 80, 90, 100],
       tbl_days_to_hire_statistics = example_statistics \<rparr>"

text \<open>The postings of \<open>test_cli_skips_small_groups\<close>.\<close>

definition small_group_db :: database where
  "small_group_db =
     \<lparr> tbl_job_posting = map (posting ''job1'' (Some ''US'')) [10, 11, 12, 13],
       tbl_days_to_hire_statistics = example_statistics \<rparr>"

text \<open>Five postings of one job and country, two of them with the same \<open>days_to_hire\<close>.\<close>

definition duplicates_db :: database where
  "duplicates_db =
     \<lparr> tbl_job_posting = map (posting ''job5'' (Some ''US'')) [1, 2, 2, 3, 4],
       tbl_days_to_hire_statistics = [] \<rparr>"

text \<open>Five postings of one job that have no country.\<close>

definition no_country_db :: database where
  "no_country_db =
     \<lparr> tbl_job_posting = map (posting ''job4'' None) [10, 11, 12, 13, 14],
       tbl_days_to_hire_statistics = example_statistics \<rparr>"

text \<open>
  The postings of \<open>test_cli_correct_statistics\<close> together with those of
  \<open>test_cli_skips_small_groups\<close>: one partition above the threshold of 5 and one below.
\<close>

definition mixed_db :: database where
  "mixed_db =
     \<lparr> tbl_job_posting =
         map (posting ''job2'' (Some ''DE'')) [10, 20, 30, 40, 50, 60, 70, 80, 90, 100]
         @ map (posting ''job1'' (Some ''US'')) [10, 11, 12, 13],
       tbl_days_to_hire_statistics = example_statistics \<rparr>"

text \<open>
  A summary table with a row whose \<open>country_code\<close> is the empty string, ahead of the
  global row of the same job.
\<close>

definition empty_country_store :: database where
  "empty_country_store =
     \<lparr> tbl_job_posting = [],
       tbl_days_to_hire_statistics =
         [\<lparr> days_to_hire_statistics.standard_job_id = ''job1'', country_code = Some [],
             min_days = 1, avg_days = 2, max_days = 3, job_postings_number = 7 \<rparr>,
          \<lparr> days_to_hire_statistics.standard_job_id = ''job1'', country_code = None,
             min_days = 12, avg_days = 40, max_days = 80, job_postings_number = 25 \<rparr>] \<rparr>"

text \<open>The text with which the driver psycopg2 refuses a bound string that holds NUL.\<close>

definition example_refusal :: string where
  "example_refusal = ''A string literal cannot contain NUL (0x00) characters.''"
section \<open>Properties of the statistics queries\<close>

lemma grp_ranked_rows: "map grp (ranked_rows seen rows) = map fst rows"
  by (induction rows arbitrary: seen) (simp_all add: Let_def)

lemma total_count_ranked_rows:
  "r \<in> set (ranked_rows seen rows) \<Longrightarrow> total_count r = length [y \<leftarrow> seen @ rows. fst y = grp r]"
proof (induction rows arbitrary: seen)
  case Nil
  then show ?case by simp
next
  case (Cons x rest)
  from Cons.prems consider
    (head) "grp r = fst x" "total_count r =
        length [y \<leftarrow> seen. fst y = fst x] + 1 + length [y \<leftarrow> rest. fst y = fst x]"
    | (tail) "r \<in> set (ranked_rows (seen @ [x]) rest)"
    by (auto simp: Let_def)
  then show ?case
  proof cases
    case head
    then show ?thesis by simp
  next
    case tail
    from Cons.IH [OF tail] show ?thesis by simp
  qed
qed

lemma total_count_ranked_cte:
  "r \<in> set (ranked_cte rows) \<Longrightarrow> total_count r = partition_count rows (grp r)"
  using total_count_ranked_rows [of r "[]" rows] by (simp add: ranked_cte_def partition_count_def)

lemma grp_ranked_cte: "grp ` set (ranked_cte rows) = fst ` set rows"
proof -
  have "set (map grp (ranked_cte rows)) = set (map fst rows)"
    by (simp only: ranked_cte_def grp_ranked_rows)
  then show ?thesis by simp
qed

lemma LEFT_JOIN_fst: "fst ` set (LEFT_JOIN rs fs cond) = set rs"
proof (induction rs)
  case Nil
  then show ?case by (simp add: LEFT_JOIN_def)
next
  case (Cons r rs)
  have "fst ` set (case [f \<leftarrow> fs. cond r f] of [] \<Rightarrow> [(r, None)] | ms \<Rightarrow> map (\<lambda>f. (r, Some f)) ms) = {r}"
    by (cases "[f \<leftarrow> fs. cond r f]") (auto simp: image_iff)
  with Cons show ?case by (simp add: LEFT_JOIN_def image_Un)
qed

lemma LEFT_JOIN_Some: "(r, Some f) \<in> set (LEFT_JOIN rs fs cond) \<Longrightarrow> cond r f"
proof (induction rs)
  case Nil
  then show ?case by (simp add: LEFT_JOIN_def)
next
  case (Cons a rs)
  show ?case
  proof (cases "(r, Some f) \<in> set (LEFT_JOIN rs fs cond)")
    case True
    then show ?thesis by (rule Cons.IH)
  next
    case False
    with Cons.prems have "(r, Some f) \<in> set (case [f \<leftarrow> fs. cond a f] of [] \<Rightarrow> [(a, None)] | ms \<Rightarrow> map (\<lambda>f. (a, Some f)) ms)"
      by (simp add: LEFT_JOIN_def)
    then have "r = a \<and> f \<in> set [f \<leftarrow> fs. cond a f]"
      by (cases "[f \<leftarrow> fs. cond a f]") auto
    then show ?thesis by simp
  qed
qed

lemma joined_rows_fst: "fst ` set (joined_rows key_eq rows) = set (ranked_cte rows)"
  by (simp add: joined_rows_def Let_def LEFT_JOIN_fst)

lemma joined_rows_Some:
  "(r, Some f) \<in> set (joined_rows key_eq rows) \<Longrightarrow> key_eq (grp r) (grp f)"
  unfolding joined_rows_def Let_def by (drule LEFT_JOIN_Some) simp

lemma set_query_groups:
  "set (query_groups key_eq rows) = (\<lambda>k. (k, partition_count rows k)) ` fst ` set rows"
proof -
  have "set (query_groups key_eq rows)
      = (\<lambda>r. (grp r, total_count r)) ` fst ` set (joined_rows key_eq rows)"
    by (simp add: query_groups_def image_image case_prod_beta)
  also have "\<dots> = (\<lambda>r. (grp r, total_count r)) ` set (ranked_cte rows)"
    by (simp only: joined_rows_fst)
  also have "\<dots> = (\<lambda>r. (grp r, partition_count rows (grp r))) ` set (ranked_cte rows)"
    by (rule image_cong) (simp_all add: total_count_ranked_cte)
  also have "\<dots> = (\<lambda>k. (k, partition_count rows k)) ` grp ` set (ranked_cte rows)"
    by (simp add: image_image)
  finally show ?thesis by (simp only: grp_ranked_cte)
qed

lemma distinct_query_groups: "distinct (map fst (query_groups key_eq rows))"
proof -
  have "distinct (query_groups key_eq rows)" by (simp add: query_groups_def)
  moreover have "inj_on fst (set (query_groups key_eq rows))"
    unfolding set_query_groups by (auto intro!: inj_onI)
  ultimately show ?thesis by (simp add: distinct_map)
qed

lemma stats_query_eq:
  "stats_query key_eq order_key rows mp =
     map (group_row (joined_rows key_eq rows))
       (sort_key (\<lambda>g. order_key (fst g)) [g \<leftarrow> query_groups key_eq rows. int (snd g) \<ge> mp])"
  by (simp add: stats_query_def query_groups_def Let_def)

lemma fst_group_row: "fst (group_row joined g) = fst g"
  by (simp add: group_row_def Let_def)

lemma stats_query_fst:
  "map fst (stats_query key_eq order_key rows mp) =
     map fst (sort_key (\<lambda>g. order_key (fst g)) [g \<leftarrow> query_groups key_eq rows. int (snd g) \<ge> mp])"
  by (simp add: stats_query_eq comp_def fst_group_row)

lemma distinct_stats_query: "distinct (map fst (stats_query key_eq order_key rows mp))"
proof -
  let ?L = "sort_key (\<lambda>g. order_key (fst g)) [g \<leftarrow> query_groups key_eq rows. int (snd g) \<ge> mp]"
  have d: "distinct (query_groups key_eq rows)" and i: "inj_on fst (set (query_groups key_eq rows))"
    using distinct_query_groups [of key_eq rows] by (simp_all add: distinct_map)
  have "distinct ?L" using d by simp
  moreover have "inj_on fst (set ?L)"
    by (rule inj_on_subset [OF i]) auto
  ultimately have "distinct (map fst ?L)" by (simp only: distinct_map simp_thms)
  then show ?thesis by (simp only: stats_query_fst)
qed

lemma set_stats_query:
  "set (map fst (stats_query key_eq order_key rows mp)) =
     {k \<in> fst ` set rows. mp \<le> int (partition_count rows k)}"
proof -
  have "set (map fst (stats_query key_eq order_key rows mp))
      = fst ` {g \<in> set (query_groups key_eq rows). mp \<le> int (snd g)}"
    unfolding stats_query_fst by simp
  also have "\<dots> = {k \<in> fst ` set rows. mp \<le> int (partition_count rows k)}"
    unfolding set_query_groups by force
  finally show ?thesis .
qed

lemma stats_query_member:
  assumes "row \<in> set (stats_query key_eq order_key rows mp)"
  obtains g where "g \<in> set (query_groups key_eq rows)" and "mp \<le> int (snd g)"
    and "row = group_row (joined_rows key_eq rows) g"
  using assms unfolding stats_query_eq by auto

lemma stats_query_total:
  assumes "(k, n, mn, av, mx) \<in> set (stats_query key_eq order_key rows mp)"
  shows "n = partition_count rows k" and "k \<in> fst ` set rows" and "mp \<le> int n"
proof -
  from assms obtain g where g: "g \<in> set (query_groups key_eq rows)" "mp \<le> int (snd g)"
    and row: "(k, n, mn, av, mx) = group_row (joined_rows key_eq rows) g"
    by (rule stats_query_member)
  from row have kn: "g = (k, n)" by (simp add: group_row_def Let_def prod_eq_iff)
  from g(1) show "n = partition_count rows k" and "k \<in> fst ` set rows"
    unfolding set_query_groups kn by auto
  from g(2) show "mp \<le> int n" unfolding kn by simp
qed

lemma AVG_all_None: "\<forall>v \<in> set vals. v = None \<Longrightarrow> AVG vals = None"
proof -
  assume "\<forall>v \<in> set vals. v = None"
  then have "[x. Some x \<leftarrow> vals] = []"
    by (induction vals) auto
  then show ?thesis by (simp add: AVG_def)
qed

lemma stats_query_no_partner:
  assumes "(k, n, mn, av, mx) \<in> set (stats_query key_eq order_key rows mp)"
    and "\<And>k'. \<not> key_eq k k'"
  shows "av = None"
proof -
  let ?J = "joined_rows key_eq rows"
  from assms(1) obtain g where
    row: "(k, n, mn, av, mx) = group_row ?J g"
    by (rule stats_query_member)
  let ?members = "[(r, f) \<leftarrow> ?J. (grp r, total_count r) = g]"
  from row have av: "av = AVG (map (\<lambda>(r, f). map_option days f) ?members)" and g: "fst g = k"
    by (simp_all add: group_row_def Let_def)
  have "\<forall>v \<in> set (map (\<lambda>(r, f). map_option days f) ?members). v = None"
  proof
    fix v assume "v \<in> set (map (\<lambda>(r, f). map_option days f) ?members)"
    then obtain r f where v: "v = map_option days f" and j: "(r, f) \<in> set ?J"
      and gr: "(grp r, total_count r) = g"
      by auto
    show "v = None"
    proof (cases f)
      case None
      with v show ?thesis by simp
    next
      case (Some f')
      with j have "key_eq (grp r) (grp f')" using joined_rows_Some by fastforce
      moreover from gr g have "grp r = k" by auto
      ultimately show ?thesis using assms(2) by simp
    qed
  qed
  then show ?thesis unfolding av by (rule AVG_all_None)
qed

section \<open>Properties of the statistics API\<close>

text \<open>
  The check of \<open>standard_job_id\<close>, \<open>not s or not s.strip()\<close>, holds exactly for the strings
  that are empty or consist of whitespace characters only.
\<close>

lemma whitespace_prefix_free:
  "\<forall>u\<in>set whitespace. \<forall>v\<in>set whitespace. prefix u v \<longrightarrow> u = v"
  by (simp add: whitespace_def)

lemma whitespace_nonempty: "[] \<notin> set whitespace"
  by (simp add: whitespace_def)

lemma strip_words_None:
  "find (\<lambda>w. w \<noteq> [] \<and> prefix w s) ws = None \<Longrightarrow> strip_words ws s = s"
  by (simp add: strip_words.simps)

lemma strip_words_Some:
  "find (\<lambda>w. w \<noteq> [] \<and> prefix w s) ws = Some w \<Longrightarrow>
     strip_words ws s = strip_words ws (drop (length w) s)"
  by (simp add: strip_words.simps)

lemma strip_words_empty_concat:
  "strip_words ws s = [] \<Longrightarrow> \<exists>us. set us \<subseteq> set ws \<and> concat us = s"
proof (induction ws s rule: strip_words.induct)
  case (1 ws s)
  show ?case
  proof (cases "find (\<lambda>w. w \<noteq> [] \<and> prefix w s) ws")
    case None
    with "1.prems" have "s = []" by (simp add: strip_words_None)
    then have "set [] \<subseteq> set ws \<and> concat [] = s" by simp
    then show ?thesis by blast
  next
    case (Some w)
    then have w: "w \<in> set ws" "prefix w s"
      by (auto simp: find_Some_iff)
    from "1.prems" Some have "strip_words ws (drop (length w) s) = []"
      by (simp add: strip_words_Some)
    from "1.IH" [OF Some this] obtain us where
      us: "set us \<subseteq> set ws" "concat us = drop (length w) s" by blast
    from w(2) have "s = w @ drop (length w) s" by (auto simp: prefix_def)
    with us w(1) have "set (w # us) \<subseteq> set ws \<and> concat (w # us) = s" by simp
    then show ?thesis by blast
  qed
qed

lemma strip_words_no_prefix:
  "find (\<lambda>w. w \<noteq> [] \<and> prefix w (strip_words ws s)) ws = None"
proof (induction ws s rule: strip_words.induct)
  case (1 ws s)
  show ?case
  proof (cases "find (\<lambda>w. w \<noteq> [] \<and> prefix w s) ws")
    case None
    then show ?thesis by (simp add: strip_words_None)
  next
    case (Some w)
    from "1.IH" [OF Some] show ?thesis by (simp add: strip_words_Some [OF Some])
  qed
qed

lemma strip_words_concat:
  assumes "\<forall>u\<in>set ws. \<forall>v\<in>set ws. prefix u v \<longrightarrow> u = v" and "[] \<notin> set ws"
  shows "set us \<subseteq> set ws \<Longrightarrow> strip_words ws (concat us) = []"
proof (induction us)
  case Nil
  have "find (\<lambda>w. w \<noteq> [] \<and> prefix w []) ws = None"
    by (simp add: find_None_iff)
  then show ?case by (simp add: strip_words_None)
next
  case (Cons u us)
  then have u: "u \<in> set ws" "u \<noteq> []" using assms(2) by auto
  then have "\<exists>w\<in>set ws. w \<noteq> [] \<and> prefix w (concat (u # us))" by auto
  then obtain w where f: "find (\<lambda>w. w \<noteq> [] \<and> prefix w (concat (u # us))) ws = Some w"
    by (cases "find (\<lambda>w. w \<noteq> [] \<and> prefix w (concat (u # us))) ws") (auto simp: find_None_iff)
  then have w: "w \<in> set ws" "prefix w (u @ concat us)"
    by (auto simp: find_Some_iff)
  have "prefix u (u @ concat us)" by simp
  with w(2) have "prefix w u \<or> prefix u w" by (rule prefix_same_cases)
  with assms(1) u(1) w(1) have "w = u" by blast
  with f have "strip_words ws (concat (u # us)) = strip_words ws (concat us)"
    by (simp add: strip_words_Some)
  with Cons show ?case by simp
qed

lemma lstrip_empty_iff: "lstrip s = [] \<longleftrightarrow> only_whitespace s"
  unfolding lstrip_def only_whitespace_def
  using strip_words_empty_concat [of whitespace s]
    strip_words_concat [OF whitespace_prefix_free whitespace_nonempty]
  by blast

lemma concat_rev_words: "set us \<subseteq> set (map rev ws) \<Longrightarrow> set (map rev (rev us)) \<subseteq> set ws"
  by auto

lemma strip_empty_iff: "strip s = [] \<longleftrightarrow> only_whitespace s"
proof
  assume "only_whitespace s"
  then have "lstrip s = []" by (simp add: lstrip_empty_iff)
  moreover have "strip_words (map rev whitespace) [] = []"
    by (rule strip_words_None) (simp add: find_None_iff)
  ultimately show "strip s = []" by (simp add: strip_def rstrip_def)
next
  assume "strip s = []"
  then have "strip_words (map rev whitespace) (rev (lstrip s)) = []"
    by (simp add: strip_def rstrip_def)
  then obtain us where us: "set us \<subseteq> set (map rev whitespace)" "concat us = rev (lstrip s)"
    using strip_words_empty_concat by blast
  let ?vs = "map rev (rev us)"
  have vs: "set ?vs \<subseteq> set whitespace" using us(1) by (rule concat_rev_words)
  have c: "concat ?vs = lstrip s"
    using us(2) by (metis rev_concat rev_rev_ident)
  have "lstrip s = []"
  proof (rule ccontr)
    assume ne: "lstrip s \<noteq> []"
    with c obtain v rest where vr: "?vs = v # rest" by (cases ?vs) auto
    with vs have "v \<in> set whitespace" by simp
    moreover from c vr have "lstrip s = v @ concat rest" by simp
    then have "prefix v (lstrip s)" by simp
    ultimately have "v \<in> set whitespace" "prefix v (lstrip s)" .
    moreover from this whitespace_nonempty have "v \<noteq> []" by auto
    ultimately have "find (\<lambda>w. w \<noteq> [] \<and> prefix w (lstrip s)) whitespace \<noteq> None"
      by (auto simp: find_None_iff)
    then show False using strip_words_no_prefix [of whitespace s] by (simp add: lstrip_def)
  qed
  then show "only_whitespace s" by (simp add: lstrip_empty_iff)
qed

lemma blank_check: "(job = [] \<or> strip job = []) \<longleftrightarrow> only_whitespace job"
proof -
  have "only_whitespace []" unfolding only_whitespace_def by (rule exI [of _ "[]"]) simp
  then show ?thesis using strip_empty_iff [of job] by auto
qed

lemma fetchone_filter_None: "fetchone (filter P xs) = None \<longleftrightarrow> (\<forall>x\<in>set xs. \<not> P x)"
  by (induction xs) auto

lemma fetchone_filter_Some: "fetchone (filter P xs) = Some x \<Longrightarrow> x \<in> set xs \<and> P x"
  by (induction xs) (auto split: if_splits)

lemma sql_eq_Some: "sql_eq a (Some b) \<longleftrightarrow> a = Some b"
  by (cases a) auto

text \<open>
  The two branches of the lookup as one: the bound strings hold NUL exactly when the
  request does, and the query is the exact-key filter on \<open>lookup_key\<close>.
\<close>

lemma lookup_execute:
  "(if truthy country then
      execute refusal [job, the country]
        [row \<leftarrow> tbl_days_to_hire_statistics db.
           days_to_hire_statistics.standard_job_id row = job \<and>
           sql_eq (days_to_hire_statistics.country_code row) country]
    else
      execute refusal [job]
        [row \<leftarrow> tbl_days_to_hire_statistics db.
           days_to_hire_statistics.standard_job_id row = job \<and>
           days_to_hire_statistics.country_code row = None])
   = (if holds_nul job country then Inl refusal else Inr (matching db job country))"
proof (cases country)
  case None
  then show ?thesis by (simp add: execute_def holds_nul_def matching_def lookup_key_def)
next
  case (Some c)
  then show ?thesis
    by (cases "c = []")
       (auto simp: execute_def holds_nul_def matching_def lookup_key_def sql_eq_Some)
qed

lemma not_found_detail:
  "(if truthy country then
      ''No statistics found for standard_job_id '' @ [CHR 0x27] @ job
        @ [CHR 0x27] @ '' and country_code '' @ [CHR 0x27] @ the country @ [CHR 0x27]
    else
      ''No global statistics found for standard_job_id '' @ [CHR 0x27] @ job @ [CHR 0x27])
   = (case lookup_key country of
        None \<Rightarrow> ''No global statistics found for standard_job_id ''
                 @ [CHR 0x27] @ job @ [CHR 0x27]
      | Some c \<Rightarrow> ''No statistics found for standard_job_id ''
                 @ [CHR 0x27] @ job @ [CHR 0x27] @ '' and country_code ''
                 @ [CHR 0x27] @ c @ [CHR 0x27])"
proof (cases country)
  case None
  then show ?thesis by (simp add: lookup_key_def)
next
  case (Some c)
  then show ?thesis by (cases "c = []") (simp_all add: lookup_key_def)
qed

lemma get_statistics_blank:
  assumes "only_whitespace job"
  shows "get_statistics refusal ds job country =
           Inl \<lparr> status_code = 400,
                 detail = ''standard_job_id parameter is required and cannot be empty'' \<rparr>"
  using assms blank_check [of job] by (simp add: get_statistics_def)

lemma get_statistics_Down:
  assumes "\<not> only_whitespace job"
  shows "get_statistics refusal (Down e) job country =
           Inl \<lparr> status_code = 500,
                 detail = ''Internal server error while retrieving statistics: '' @ e \<rparr>"
  using assms blank_check [of job] by (simp add: get_statistics_def)

lemma get_statistics_nul:
  assumes "\<not> only_whitespace job" and "holds_nul job country"
  shows "get_statistics refusal (Up db) job country =
           Inl \<lparr> status_code = 500,
                 detail = ''Internal server error while retrieving statistics: '' @ refusal \<rparr>"
proof -
  have nb: "\<not> (job = [] \<or> strip job = [])" using assms(1) blank_check by blast
  show ?thesis
    unfolding get_statistics_def lookup_execute
    using nb assms(2) by simp
qed

lemma get_statistics_Up:
  assumes "\<not> only_whitespace job" and "\<not> holds_nul job country"
  shows "get_statistics refusal (Up db) job country =
           (case fetchone (matching db job country) of
              None \<Rightarrow>
                Inl \<lparr> status_code = 404,
                      detail =
                        (case lookup_key country of
                           None \<Rightarrow> ''No global statistics found for standard_job_id ''
                                    @ [CHR 0x27] @ job @ [CHR 0x27]
                         | Some c \<Rightarrow> ''No statistics found for standard_job_id ''
                                    @ [CHR 0x27] @ job @ [CHR 0x27] @ '' and country_code ''
                                    @ [CHR 0x27] @ c @ [CHR 0x27]) \<rparr>
            | Some row \<Rightarrow> Inr (response_of row))"
proof -
  have nb: "\<not> (job = [] \<or> strip job = [])" using assms(1) blank_check by blast
  show ?thesis
    unfolding get_statistics_def lookup_execute not_found_detail
    using nb assms(2) by (simp add: response_of_def split: option.splits)
qed

text \<open>
  Claim C6, as the code has it. A successful \<open>get_statistics\<close> returns a stored row whose
  \<open>standard_job_id\<close> is the requested one and whose \<open>country_code\<close> is exactly the lookup
  key: the given country code when it is non-empty, NULL (the global row) when the country
  code is omitted or empty. It never returns a row of another country, and never a
  country-specific row for a global lookup.
\<close>

theorem get_statistics_exact_key:
  assumes "get_statistics refusal ds job country = Inr resp"
  shows "\<exists>db row. ds = Up db \<and> row \<in> set (tbl_days_to_hire_statistics db) \<and>
           days_to_hire_statistics.standard_job_id row = job \<and>
           days_to_hire_statistics.country_code row = lookup_key country \<and>
           resp = response_of row"
proof -
  have nb: "\<not> only_whitespace job"
    using assms get_statistics_blank [of job refusal ds country] by auto
  obtain db where ds: "ds = Up db"
    using assms get_statistics_Down [OF nb, of refusal _ country] by (cases ds) auto
  have nn: "\<not> holds_nul job country"
    using assms get_statistics_nul [OF nb, of country refusal db] unfolding ds by auto
  from assms obtain row where f: "fetchone (matching db job country) = Some row"
    and r: "resp = response_of row"
    unfolding ds get_statistics_Up [OF nb nn] by (auto split: option.splits)
  from f have "row \<in> set (tbl_days_to_hire_statistics db) \<and>
      (days_to_hire_statistics.standard_job_id row = job \<and>
      days_to_hire_statistics.country_code row = lookup_key country)"
    unfolding matching_def by (rule fetchone_filter_Some)
  with ds r show ?thesis by blast
qed

text \<open>
  Requests over the example tables, evaluated: the code runs the check of
  \<open>standard_job_id\<close>, the lookup and the choice of the answer.
\<close>

lemma example_requests:
  "get_statistics example_refusal (Up example_store) ''job1'' (Some ''US'') =
     Inr (response_of (example_statistics ! 0))"
  "get_statistics example_refusal (Up example_store) ''job1'' (Some []) =
     Inr \<lparr> standard_job_id = ''job1'', country_code = None,
           min_days = 12, avg_days = 40, max_days = 80, job_postings_number = 25 \<rparr>"
  "get_statistics example_refusal (Up empty_country_store) ''job1'' (Some []) =
     Inr \<lparr> standard_job_id = ''job1'', country_code = None,
           min_days = 12, avg_days = 40, max_days = 80, job_postings_number = 25 \<rparr>"
  by code_simp+

text \<open>The lookup of \<open>job1\<close> in \<open>US\<close> over the example table returns the \<open>US\<close> row.\<close>

theorem get_statistics_exact_key_witness:
  "get_statistics example_refusal (Up example_store) ''job1'' (Some ''US'') =
     Inr (response_of (example_statistics ! 0)) \<and>
   (\<exists>db row. Up example_store = Up db \<and> row \<in> set (tbl_days_to_hire_statistics db) \<and>
           days_to_hire_statistics.standard_job_id row = ''job1'' \<and>
           days_to_hire_statistics.country_code row = lookup_key (Some ''US'') \<and>
           response_of (example_statistics ! 0) = response_of row)"
  using example_requests(1) get_statistics_exact_key [OF example_requests(1)] by simp

text \<open>
  Claim C6 as stated fails for a supplied country code that is the empty string: the
  lookup succeeds with the global row, whose \<open>country_code\<close> is NULL and not the supplied
  value.
\<close>

theorem get_statistics_empty_country_counterexample:
  "get_statistics example_refusal (Up example_store) ''job1'' (Some []) =
     Inr \<lparr> standard_job_id = ''job1'', country_code = None,
           min_days = 12, avg_days = 40, max_days = 80, job_postings_number = 25 \<rparr>"
  by code_simp



text \<open>
  Claim C9. An empty \<open>country_code\<close> gives the same result as an omitted one, whatever the
  datastore holds, and that is the lookup of the global row: for a \<open>standard_job_id\<close> that
  passes the check and holds no NUL, the answer over a database is the first stored row of
  the job whose \<open>country_code\<close> is NULL, or the 404 of a missing global row when there is
  none. A row whose \<open>country_code\<close> is the empty string is never the answer.
\<close>

theorem get_statistics_empty_country_is_global:
  "get_statistics refusal ds job (Some []) = get_statistics refusal ds job None
   \<and> (\<not> only_whitespace job \<and> CHR 0x00 \<notin> set job \<longrightarrow>
        get_statistics refusal (Up db) job (Some []) =
          (case fetchone [row \<leftarrow> tbl_days_to_hire_statistics db.
                            days_to_hire_statistics.standard_job_id row = job \<and>
                            days_to_hire_statistics.country_code row = None] of
             None \<Rightarrow>
               Inl \<lparr> status_code = 404,
                     detail = ''No global statistics found for standard_job_id ''
                                @ [CHR 0x27] @ job @ [CHR 0x27] \<rparr>
           | Some row \<Rightarrow> Inr (response_of row)))"
proof (intro conjI impI)
  show "get_statistics refusal ds job (Some []) = get_statistics refusal ds job None"
    by (cases ds) (simp_all add: get_statistics_def)
next
  assume a: "\<not> only_whitespace job \<and> CHR 0x00 \<notin> set job"
  then have nn: "\<not> holds_nul job (Some [])" by (simp add: holds_nul_def lookup_key_def)
  from a have nb: "\<not> only_whitespace job" by simp
  show "get_statistics refusal (Up db) job (Some []) =
          (case fetchone [row \<leftarrow> tbl_days_to_hire_statistics db.
                            days_to_hire_statistics.standard_job_id row = job \<and>
                            days_to_hire_statistics.country_code row = None] of
             None \<Rightarrow>
               Inl \<lparr> status_code = 404,
                     detail = ''No global statistics found for standard_job_id ''
                                @ [CHR 0x27] @ job @ [CHR 0x27] \<rparr>
           | Some row \<Rightarrow> Inr (response_of row))"
  proof -
    have lk: "lookup_key (Some []) = None" by (simp add: lookup_key_def)
    show ?thesis
      unfolding get_statistics_Up [OF nb nn] matching_def lk option.case ..
  qed
qed

text \<open>
  Over a table that holds a row with the empty string as \<open>country_code\<close> ahead of the
  global row, the request with an empty \<open>country_code\<close> is answered with the global row.
\<close>

theorem get_statistics_empty_country_is_global_witness:
  "get_statistics example_refusal (Up empty_country_store) ''job1'' (Some []) =
     get_statistics example_refusal (Up empty_country_store) ''job1'' None \<and>
   get_statistics example_refusal (Up empty_country_store) ''job1'' (Some []) =
     Inr \<lparr> standard_job_id = ''job1'', country_code = None,
           min_days = 12, avg_days = 40, max_days = 80, job_postings_number = 25 \<rparr>"
proof -
  have nb: "\<not> only_whitespace ''job1''"
    unfolding lstrip_empty_iff [symmetric] by code_simp
  have nn: "CHR 0x00 \<notin> set ''job1''" by simp
  note c9 = get_statistics_empty_country_is_global [where refusal = example_refusal
        and ds = "Up empty_country_store" and job = "''job1''" and db = empty_country_store]
  from c9 have same:
    "get_statistics example_refusal (Up empty_country_store) ''job1'' (Some []) =
     get_statistics example_refusal (Up empty_country_store) ''job1'' None"
    by (rule conjunct1)
  from c9 nb nn have
    "get_statistics example_refusal (Up empty_country_store) ''job1'' (Some []) =
       (case fetchone [row \<leftarrow> tbl_days_to_hire_statistics empty_country_store.
                         days_to_hire_statistics.standard_job_id row = ''job1'' \<and>
                         days_to_hire_statistics.country_code row = None] of
          None \<Rightarrow>
            Inl \<lparr> status_code = 404,
                  detail = ''No global statistics found for standard_job_id ''
                             @ [CHR 0x27] @ ''job1'' @ [CHR 0x27] \<rparr>
        | Some row \<Rightarrow> Inr (response_of row))"
    by blast
  also have "\<dots> = Inr \<lparr> standard_job_id = ''job1'', country_code = None,
           min_days = 12, avg_days = 40, max_days = 80, job_postings_number = 25 \<rparr>"
    by (simp add: empty_country_store_def response_of_def)
  finally show ?thesis using same by (rule conjI [rotated])
qed

text \<open>
  Claim C10. \<open>health_check\<close> returns the same dictionary with status \<open>healthy\<close> for every
  state of the datastore, a failing datastore included.
\<close>

theorem health_check_constant:
  "health_check ds = Inr [(''status'', ''healthy''), (''service'', ''days-to-hire-statistics-api'')]"
  by (simp add: health_check_def)

section \<open>The run as a function of the fact table\<close>

lemma COUNTRY_STATS_QUERY_statistics_update [simp]:
  "COUNTRY_STATS_QUERY (db\<lparr> tbl_days_to_hire_statistics := t \<rparr>) mp = COUNTRY_STATS_QUERY db mp"
  by (simp add: COUNTRY_STATS_QUERY_def)

lemma GLOBAL_STATS_QUERY_statistics_update [simp]:
  "GLOBAL_STATS_QUERY (db\<lparr> tbl_days_to_hire_statistics := t \<rparr>) mp = GLOBAL_STATS_QUERY db mp"
  by (simp add: GLOBAL_STATS_QUERY_def)

lemma new_snapshot_statistics_update [simp]:
  "new_snapshot (db\<lparr> tbl_days_to_hire_statistics := t \<rparr>) mp = new_snapshot db mp"
  by (simp add: new_snapshot_def calculate_country_statistics_def calculate_global_statistics_def
      get_session_def)

lemma main_no_fault:
  "main None db mp =
     (case those (map insert_row (new_snapshot db mp)) of
        None \<Rightarrow> (db\<lparr> tbl_days_to_hire_statistics := [] \<rparr>, Some IntegrityError)
      | Some rows \<Rightarrow> (db\<lparr> tbl_days_to_hire_statistics := rows \<rparr>, None))"
  by (simp add: main_def process_job_postings_def clear_existing_statistics_def commit_def
      get_session_def insert_statistics_def new_snapshot_def calculate_country_statistics_def
      calculate_global_statistics_def split: option.splits)

lemma main_fault:
  "main (Some call) db mp =
     (if call = DeleteStatistics \<or> call = CommitDelete then db
      else db\<lparr> tbl_days_to_hire_statistics := [] \<rparr>, Some OperationalError)"
  by (cases call)
     (simp_all add: main_def process_job_postings_def clear_existing_statistics_def commit_def
      get_session_def insert_statistics_def calculate_country_statistics_def
      calculate_global_statistics_def)

lemma those_Some_map: "those xs = Some ys \<Longrightarrow> xs = map Some ys"
  by (induction xs arbitrary: ys) (auto split: option.splits)

section \<open>The queries and a run on the example data\<close>

text \<open>
  The postings of \<open>test_cli_correct_statistics\<close>: the 10th percentile is 19, the 90th is
  91, and the mean of the middle eight values is 55, as the specification's example says.
\<close>

lemma example_queries:
  "COUNTRY_STATS_QUERY example_db 5 = [((''job2'', Some ''DE''), 10, Some 19, Some 55, Some 91)]"
  "GLOBAL_STATS_QUERY example_db 5 = [(''job2'', 10, Some 19, Some 55, Some 91)]"
  by code_simp+

lemma example_run:
  "main None example_db 5 =
     (example_db\<lparr> tbl_days_to_hire_statistics :=
        [\<lparr> days_to_hire_statistics.standard_job_id = ''job2'', country_code = Some ''DE'',
            min_days = 19, avg_days = 55, max_days = 91, job_postings_number = 10 \<rparr>,
         \<lparr> days_to_hire_statistics.standard_job_id = ''job2'', country_code = None,
            min_days = 19, avg_days = 55, max_days = 91, job_postings_number = 10 \<rparr>] \<rparr>, None)"
  by (simp add: main_def process_job_postings_def clear_existing_statistics_def commit_def
      get_session_def insert_statistics_def calculate_country_statistics_def
      calculate_global_statistics_def example_queries insert_row_def)

section \<open>Properties of the aggregation run: transactions\<close>

text \<open>
  Claim C1, as the code has it. The run commits the delete on its own and the inserts in a
  second transaction. The fact table is never changed. A run that ends without error
  leaves exactly the freshly computed records; a failure of the delete or of its commit
  leaves the previous snapshot; every later failure leaves the summary table empty. The
  table is never left partially filled.
\<close>

theorem main_commits_delete_first:
  assumes "main fault db mp = (db', outcome)"
  shows "tbl_job_posting db' = tbl_job_posting db \<and>
         (case outcome of
            None \<Rightarrow> map Some (tbl_days_to_hire_statistics db') = map insert_row (new_snapshot db mp)
          | Some e \<Rightarrow>
              tbl_days_to_hire_statistics db' =
                (if fault = Some DeleteStatistics \<or> fault = Some CommitDelete
                 then tbl_days_to_hire_statistics db else []))"
proof (cases fault)
  case None
  then show ?thesis using assms those_Some_map [of "map insert_row (new_snapshot db mp)"]
    by (auto simp: main_no_fault split: option.splits)
next
  case (Some call)
  then show ?thesis using assms by (auto simp: main_fault split: if_splits)
qed
text \<open>
  A datastore fault at the global query, over the example table: the run ends with an
  error and an empty summary table. The run on the example postings ends without error
  and leaves the two computed records.
\<close>

theorem main_commits_delete_first_witness:
  "main (Some GlobalQuery) example_store 5 =
     (example_store\<lparr> tbl_days_to_hire_statistics := [] \<rparr>, Some OperationalError) \<and>
   tbl_job_posting (example_store\<lparr> tbl_days_to_hire_statistics := [] \<rparr>) = tbl_job_posting example_store \<and>
   tbl_days_to_hire_statistics (example_store\<lparr> tbl_days_to_hire_statistics := [] \<rparr>) = [] \<and>
   main None example_db 5 =
     (example_db\<lparr> tbl_days_to_hire_statistics :=
        [\<lparr> days_to_hire_statistics.standard_job_id = ''job2'', country_code = Some ''DE'',
            min_days = 19, avg_days = 55, max_days = 91, job_postings_number = 10 \<rparr>,
         \<lparr> days_to_hire_statistics.standard_job_id = ''job2'', country_code = None,
            min_days = 19, avg_days = 55, max_days = 91, job_postings_number = 10 \<rparr>] \<rparr>, None) \<and>
   map insert_row (new_snapshot example_db 5) =
     [Some \<lparr> days_to_hire_statistics.standard_job_id = ''job2'', country_code = Some ''DE'',
            min_days = 19, avg_days = 55, max_days = 91, job_postings_number = 10 \<rparr>,
      Some \<lparr> days_to_hire_statistics.standard_job_id = ''job2'', country_code = None,
            min_days = 19, avg_days = 55, max_days = 91, job_postings_number = 10 \<rparr>]"
proof -
  have h: "main (Some GlobalQuery) example_store 5 =
     (example_store\<lparr> tbl_days_to_hire_statistics := [] \<rparr>, Some OperationalError)"
    by (simp add: main_fault)
  show ?thesis
    using h main_commits_delete_first [OF h] example_run main_commits_delete_first [OF example_run]
    by simp
qed

text \<open>
  Claim C1 as stated fails: when the datastore raises at the country query, after the
  delete and before the final commit, the two rows of the previous snapshot are gone.
\<close>

theorem main_fault_after_delete_counterexample:
  "length (tbl_days_to_hire_statistics example_store) = 2 \<and>
   main (Some CountryQuery) example_store 5 =
     (\<lparr> tbl_job_posting = [], tbl_days_to_hire_statistics = [] \<rparr>, Some OperationalError)"
  by (simp add: main_fault example_store_def example_statistics_def)

text \<open>
  Claim C8. A second run over the database that the first run left, with the same
  \<open>min_postings\<close>, ends with the same summary table, row by row on the columns of a
  StatisticsRecord, and with the same outcome as the first.
\<close>

theorem main_twice:
  "main None (fst (main None db mp)) mp = main None db mp"
  by (simp add: main_no_fault split: option.splits)

section \<open>Properties of the aggregation run: the records of a completed run\<close>

lemma partition_count_pos: "k \<in> fst ` set rows \<longleftrightarrow> 0 < partition_count rows k"
  by (auto simp: partition_count_def filter_empty_conv image_iff)

lemma partition_count_job_posting_rows:
  "partition_count (job_posting_rows cols ps) k =
     length [p \<leftarrow> ps. days_to_hire p \<noteq> None \<and> cols p = k]"
proof (induction ps)
  case Nil
  then show ?case by (simp add: partition_count_def job_posting_rows_def)
next
  case (Cons p ps)
  then show ?case
    by (cases "days_to_hire p") (simp_all add: partition_count_def job_posting_rows_def)
qed

lemma country_partition_count:
  "partition_count
     (job_posting_rows (\<lambda>p. (job_posting.standard_job_id p, job_posting.country_code p))
        (tbl_job_posting db)) (job, Some c) = postings_count db job (Some c)"
  by (simp add: partition_count_job_posting_rows postings_count_def conj_commute)

lemma global_partition_count:
  "partition_count (job_posting_rows job_posting.standard_job_id (tbl_job_posting db)) job
     = postings_count db job None"
  by (simp add: partition_count_job_posting_rows postings_count_def)

lemma length_filter_mono:
  "(\<And>x. P x \<Longrightarrow> Q x) \<Longrightarrow> length (filter P xs) \<le> length (filter Q xs)"
  by (induction xs) (auto intro: le_SucI)

lemma null_country_partition_count:
  "partition_count
     (job_posting_rows (\<lambda>p. (job_posting.standard_job_id p, job_posting.country_code p))
        (tbl_job_posting db)) (job, None) \<le> postings_count db job None"
  unfolding partition_count_job_posting_rows postings_count_def
  by (rule length_filter_mono) simp

lemma distinct_map_filter_length:
  "distinct (map f xs) \<Longrightarrow> length [x \<leftarrow> xs. f x = k] = (if k \<in> f ` set xs then 1 else 0)"
  by (induction xs) (auto simp: filter_empty_conv)

lemma insert_row_Some:
  assumes "insert_row obj = Some row"
  shows "days_to_hire_statistics.standard_job_id row = DaysToHireStatistics.standard_job_id obj"
    and "days_to_hire_statistics.country_code row = DaysToHireStatistics.country_code obj"
    and "DaysToHireStatistics.avg_days obj \<noteq> None"
  using assms by (auto simp: insert_row_def split: option.splits)

lemma flushed_rows:
  assumes "map insert_row objs = map Some rows"
  shows "map (\<lambda>row. (days_to_hire_statistics.standard_job_id row, days_to_hire_statistics.country_code row)) rows
           = map (\<lambda>obj. (DaysToHireStatistics.standard_job_id obj, DaysToHireStatistics.country_code obj)) objs"
    and "\<forall>obj \<in> set objs. DaysToHireStatistics.avg_days obj \<noteq> None"
  using assms
proof (induction objs arbitrary: rows)
  case Nil
  { case 1 then show ?case by simp }
  { case 2 then show ?case by simp }
next
  case (Cons obj objs)
  { case 1
    then obtain row rest where r: "rows = row # rest" "insert_row obj = Some row"
      "map insert_row objs = map Some rest" by (cases rows) auto
    with Cons.IH(1) [OF r(3)] insert_row_Some [OF r(2)] show ?case by simp }
  { case 2
    then obtain row rest where r: "rows = row # rest" "insert_row obj = Some row"
      "map insert_row objs = map Some rest" by (cases rows) auto
    with Cons.IH(2) [OF r(3)] insert_row_Some [OF r(2)] show ?case by simp }
qed

lemma new_snapshot_eq:
  "new_snapshot db mp =
     map (\<lambda>((job, country), total, mn, av, mx).
            \<lparr> DaysToHireStatistics.standard_job_id = job, country_code = country,
              min_days = mn, avg_days = av, max_days = mx,
              job_postings_number = int total \<rparr>) (COUNTRY_STATS_QUERY db mp)
     @ map (\<lambda>(job, total, mn, av, mx).
            \<lparr> DaysToHireStatistics.standard_job_id = job, country_code = None,
              min_days = mn, avg_days = av, max_days = mx,
              job_postings_number = int total \<rparr>) (GLOBAL_STATS_QUERY db mp)"
  by (simp add: new_snapshot_def calculate_country_statistics_def calculate_global_statistics_def
      get_session_def)

lemma new_snapshot_keys:
  "map (\<lambda>obj. (DaysToHireStatistics.standard_job_id obj, DaysToHireStatistics.country_code obj)) (new_snapshot db mp) =
     map fst (COUNTRY_STATS_QUERY db mp) @ map (\<lambda>row. (fst row, None)) (GLOBAL_STATS_QUERY db mp)"
  by (simp add: new_snapshot_eq case_prod_beta comp_def)

lemma country_row_without_country:
  assumes "((job, None), n, mn, av, mx) \<in> set (COUNTRY_STATS_QUERY db mp)"
  shows "av = None"
  using assms unfolding COUNTRY_STATS_QUERY_def
  by (rule stats_query_no_partner) simp

lemma completed_run:
  assumes "main fault db mp = (db', None)"
  shows "map insert_row (new_snapshot db mp) = map Some (tbl_days_to_hire_statistics db')"
proof (cases fault)
  case None
  with assms those_Some_map [of "map insert_row (new_snapshot db mp)"] show ?thesis
    by (auto simp: main_no_fault split: option.splits)
next
  case (Some call)
  with assms show ?thesis by (simp add: main_fault)
qed

lemma completed_keys:
  assumes "main fault db mp = (db', None)"
  shows "map row_key (tbl_days_to_hire_statistics db') =
           map fst (COUNTRY_STATS_QUERY db mp)
           @ map (\<lambda>row. (fst row, None)) (GLOBAL_STATS_QUERY db mp)"
    and "\<forall>k \<in> set (map fst (COUNTRY_STATS_QUERY db mp)). snd k \<noteq> None"
proof -
  note flushed = flushed_rows [OF completed_run [OF assms]]
  from flushed(1) show "map row_key (tbl_days_to_hire_statistics db') =
           map fst (COUNTRY_STATS_QUERY db mp)
           @ map (\<lambda>row. (fst row, None)) (GLOBAL_STATS_QUERY db mp)"
    unfolding new_snapshot_keys row_key_def .
  show "\<forall>k \<in> set (map fst (COUNTRY_STATS_QUERY db mp)). snd k \<noteq> None"
  proof
    fix k assume "k \<in> set (map fst (COUNTRY_STATS_QUERY db mp))"
    then obtain job country n mn av mx
      where row: "((job, country), n, mn, av, mx) \<in> set (COUNTRY_STATS_QUERY db mp)"
        and k: "k = (job, country)"
      by auto
    let ?obj = "\<lparr> DaysToHireStatistics.standard_job_id = job, country_code = country,
              min_days = mn, avg_days = av, max_days = mx,
              job_postings_number = int n \<rparr>"
    from row have "?obj \<in> set (new_snapshot db mp)"
      unfolding new_snapshot_eq by force
    with flushed(2) have "av \<noteq> None" by fastforce
    with country_row_without_country [of job n mn av mx db mp] row k
    show "snd k \<noteq> None" by (cases country) auto
  qed
qed

lemma completed_distinct:
  assumes "main fault db mp = (db', None)"
  shows "distinct (map row_key (tbl_days_to_hire_statistics db'))"
proof -
  have c: "distinct (map fst (COUNTRY_STATS_QUERY db mp))"
    unfolding COUNTRY_STATS_QUERY_def by (rule distinct_stats_query)
  have "distinct (map fst (GLOBAL_STATS_QUERY db mp))"
    unfolding GLOBAL_STATS_QUERY_def by (rule distinct_stats_query)
  then have g: "distinct (map (\<lambda>row. (fst row, None :: string option)) (GLOBAL_STATS_QUERY db mp))"
    by (simp add: distinct_map inj_on_def)
  have "set (map fst (COUNTRY_STATS_QUERY db mp))
        \<inter> set (map (\<lambda>row. (fst row, None)) (GLOBAL_STATS_QUERY db mp)) = {}"
    using completed_keys(2) [OF assms] by fastforce
  with c g show ?thesis unfolding completed_keys(1) [OF assms] by simp
qed

lemma completed_member:
  assumes "main fault db mp = (db', None)"
  shows "(job, country) \<in> row_key ` set (tbl_days_to_hire_statistics db') \<longleftrightarrow>
           0 < postings_count db job country \<and> mp \<le> int (postings_count db job country)"
proof -
  have keys: "row_key ` set (tbl_days_to_hire_statistics db') =
      set (map fst (COUNTRY_STATS_QUERY db mp))
      \<union> set (map (\<lambda>row. (fst row, None)) (GLOBAL_STATS_QUERY db mp))"
    using completed_keys(1) [OF assms] by (metis set_append set_map)
  show ?thesis
  proof (cases country)
    case None
    have "(job, None) \<notin> set (map fst (COUNTRY_STATS_QUERY db mp))"
      using completed_keys(2) [OF assms] by fastforce
    moreover have "(job, None) \<in> set (map (\<lambda>row. (fst row, None :: string option)) (GLOBAL_STATS_QUERY db mp))
        \<longleftrightarrow> job \<in> set (map fst (GLOBAL_STATS_QUERY db mp))"
      by (auto simp: image_iff)
    moreover have "job \<in> set (map fst (GLOBAL_STATS_QUERY db mp))
        \<longleftrightarrow> 0 < postings_count db job None \<and> mp \<le> int (postings_count db job None)"
      unfolding GLOBAL_STATS_QUERY_def set_stats_query
      by (simp add: partition_count_pos global_partition_count)
    ultimately show ?thesis unfolding keys None by simp
  next
    case (Some c)
    have "(job, Some c) \<notin> set (map (\<lambda>row. (fst row, None :: string option)) (GLOBAL_STATS_QUERY db mp))"
      by auto
    moreover have "(job, Some c) \<in> set (map fst (COUNTRY_STATS_QUERY db mp))
        \<longleftrightarrow> 0 < postings_count db job (Some c) \<and> mp \<le> int (postings_count db job (Some c))"
      unfolding COUNTRY_STATS_QUERY_def set_stats_query
      by (simp add: partition_count_pos country_partition_count)
    ultimately show ?thesis unfolding keys Some by simp
  qed
qed

lemma below_threshold_empty:
  assumes "\<And>job country. int (postings_count db job country) < mp"
  shows "COUNTRY_STATS_QUERY db mp = []" and "GLOBAL_STATS_QUERY db mp = []"
proof -
  have "set (map fst (COUNTRY_STATS_QUERY db mp)) = {}"
  proof -
    have "\<not> mp \<le> int (partition_count
        (job_posting_rows (\<lambda>p. (job_posting.standard_job_id p, job_posting.country_code p))
          (tbl_job_posting db)) k)" for k
    proof (cases k)
      case (Pair job country)
      show ?thesis
      proof (cases country)
        case None
        with Pair null_country_partition_count [of db job] assms [of job None]
        show ?thesis by simp
      next
        case (Some c)
        with Pair assms [of job "Some c"] show ?thesis
          by (simp add: country_partition_count)
      qed
    qed
    then show ?thesis unfolding COUNTRY_STATS_QUERY_def set_stats_query by simp
  qed
  then show "COUNTRY_STATS_QUERY db mp = []" by simp
  have "set (map fst (GLOBAL_STATS_QUERY db mp)) = {}"
    unfolding GLOBAL_STATS_QUERY_def set_stats_query
    using assms [of _ None] by (simp add: global_partition_count not_le)
  then show "GLOBAL_STATS_QUERY db mp = []" by simp
qed

text \<open>
  A partition of postings without a country that reaches the threshold makes the run fail:
  the country query returns its row with a NULL \<open>avg_days\<close>, and the insert is refused.
\<close>

lemma those_None: "None \<in> set xs \<Longrightarrow> those xs = None"
  by (induction xs) (auto split: option.splits)

lemma null_country_partition_fails:
  assumes "0 < partition_count
     (job_posting_rows (\<lambda>p. (job_posting.standard_job_id p, job_posting.country_code p))
        (tbl_job_posting db)) (job, None)"
    and "mp \<le> int (partition_count
     (job_posting_rows (\<lambda>p. (job_posting.standard_job_id p, job_posting.country_code p))
        (tbl_job_posting db)) (job, None))"
  shows "main None db mp = (db\<lparr> tbl_days_to_hire_statistics := [] \<rparr>, Some IntegrityError)"
proof -
  from assms have "(job, None) \<in> set (map fst (COUNTRY_STATS_QUERY db mp))"
    unfolding COUNTRY_STATS_QUERY_def set_stats_query by (simp add: partition_count_pos)
  then obtain n mn av mx where row: "((job, None), n, mn, av, mx) \<in> set (COUNTRY_STATS_QUERY db mp)"
    by auto
  then have av: "av = None" by (rule country_row_without_country)
  let ?obj = "\<lparr> DaysToHireStatistics.standard_job_id = job, country_code = None,
              min_days = mn, avg_days = None, max_days = mx,
              job_postings_number = int n \<rparr>"
  from row av have "?obj \<in> set (new_snapshot db mp)"
    unfolding new_snapshot_eq by force
  moreover have "insert_row ?obj = None" by (simp add: insert_row_def split: option.splits)
  ultimately have "None \<in> set (map insert_row (new_snapshot db mp))"
    by (metis image_eqI set_map)
  then have "those (map insert_row (new_snapshot db mp)) = None" by (rule those_None)
  then show ?thesis by (simp add: main_no_fault)
qed

lemma no_country_run:
  "main None no_country_db 5 =
     (no_country_db\<lparr> tbl_days_to_hire_statistics := [] \<rparr>, Some IntegrityError)"
  by (rule null_country_partition_fails)
     (simp_all add: partition_count_job_posting_rows no_country_db_def posting_def)

text \<open>
  Claim C2. After every completed run, whatever the fact table and \<open>min_postings\<close>, the
  summary table holds at most one row for each pair of \<open>standard_job_id\<close> and
  \<open>country_code\<close>, the NULL country code included. (The country query does return a row
  with a NULL country code for the postings that have no country, next to the row of the
  global query; its \<open>avg_days\<close> is always NULL, the table refuses it, and such a run does
  not complete.)
\<close>

theorem completed_run_one_record_per_key:
  assumes "main fault db mp = (db', None)"
  shows "length [row \<leftarrow> tbl_days_to_hire_statistics db'.
                   days_to_hire_statistics.standard_job_id row = job \<and>
                   days_to_hire_statistics.country_code row = country] \<le> 1"
proof -
  have "length [row \<leftarrow> tbl_days_to_hire_statistics db'. row_key row = (job, country)] \<le> 1"
    using distinct_map_filter_length [OF completed_distinct [OF assms], of "(job, country)"]
    by simp
  then show ?thesis by (simp add: row_key_def)
qed

text \<open>The run on the example data completes; its table has one row for \<open>job2\<close> in \<open>DE\<close>.\<close>

theorem completed_run_one_record_per_key_witness:
  "main None example_db 5 =
     (example_db\<lparr> tbl_days_to_hire_statistics :=
        [\<lparr> days_to_hire_statistics.standard_job_id = ''job2'', country_code = Some ''DE'',
            min_days = 19, avg_days = 55, max_days = 91, job_postings_number = 10 \<rparr>,
         \<lparr> days_to_hire_statistics.standard_job_id = ''job2'', country_code = None,
            min_days = 19, avg_days = 55, max_days = 91, job_postings_number = 10 \<rparr>] \<rparr>, None) \<and>
   length [row \<leftarrow>
             [\<lparr> days_to_hire_statistics.standard_job_id = ''job2'', country_code = Some ''DE'',
                 min_days = 19, avg_days = 55, max_days = 91, job_postings_number = 10 \<rparr>,
              \<lparr> days_to_hire_statistics.standard_job_id = ''job2'', country_code = None,
                 min_days = 19, avg_days = 55, max_days = 91, job_postings_number = 10 \<rparr>].
             days_to_hire_statistics.standard_job_id row = ''job2'' \<and>
             days_to_hire_statistics.country_code row = None] \<le> 1"
  using example_run completed_run_one_record_per_key [OF example_run, of "''job2''" None]
  by simp

text \<open>
  A run without a datastore fault ends in error exactly when the table refuses one of the
  computed records, and a computed record is that of a partition at or above the
  threshold, with the partition's size as its \<open>job_postings_number\<close>.
\<close>

lemma those_None_iff: "those xs = None \<longleftrightarrow> None \<in> set xs"
  by (induction xs) (auto split: option.splits)

lemma new_snapshot_halves: "new_snapshot db mp = country_records db mp @ global_records db mp"
  by (simp add: new_snapshot_def country_records_def global_records_def
      calculate_country_statistics_def calculate_global_statistics_def)

lemma main_completes_iff:
  "(\<exists>db'. main None db mp = (db', None)) \<longleftrightarrow>
     (\<forall>obj \<in> set (new_snapshot db mp). insert_row obj \<noteq> None)"
proof (cases "those (map insert_row (new_snapshot db mp))")
  case None
  then have "None \<in> set (map insert_row (new_snapshot db mp))" by (simp add: those_None_iff)
  moreover from None have "main None db mp =
      (db\<lparr> tbl_days_to_hire_statistics := [] \<rparr>, Some IntegrityError)"
    by (simp add: main_no_fault)
  ultimately show ?thesis by force
next
  case (Some rows)
  then have "None \<notin> set (map insert_row (new_snapshot db mp))"
    using those_None_iff [of "map insert_row (new_snapshot db mp)"] by simp
  moreover from Some have "main None db mp = (db\<lparr> tbl_days_to_hire_statistics := rows \<rparr>, None)"
    by (simp add: main_no_fault)
  ultimately show ?thesis by force
qed

lemma country_records_threshold:
  assumes "obj \<in> set (country_records db mp)"
  shows "mp \<le> DaysToHireStatistics.job_postings_number obj"
    and "DaysToHireStatistics.job_postings_number obj =
           int (length [p \<leftarrow> tbl_job_posting db. days_to_hire p \<noteq> None \<and>
                  job_posting.standard_job_id p = DaysToHireStatistics.standard_job_id obj \<and>
                  job_posting.country_code p = DaysToHireStatistics.country_code obj])"
proof -
  from assms obtain job country n mn av mx
    where row: "((job, country), n, mn, av, mx) \<in> set (COUNTRY_STATS_QUERY db mp)"
      and obj: "obj = \<lparr> DaysToHireStatistics.standard_job_id = job, country_code = country,
              min_days = mn, avg_days = av, max_days = mx, job_postings_number = int n \<rparr>"
    by (auto simp: country_records_def calculate_country_statistics_def get_session_def)
  note total = stats_query_total [OF row [unfolded COUNTRY_STATS_QUERY_def]]
  from total(3) obj show "mp \<le> DaysToHireStatistics.job_postings_number obj" by simp
  from total(1) obj show "DaysToHireStatistics.job_postings_number obj =
           int (length [p \<leftarrow> tbl_job_posting db. days_to_hire p \<noteq> None \<and>
                  job_posting.standard_job_id p = DaysToHireStatistics.standard_job_id obj \<and>
                  job_posting.country_code p = DaysToHireStatistics.country_code obj])"
    by (simp add: partition_count_job_posting_rows)
qed

lemma global_records_threshold:
  assumes "obj \<in> set (global_records db mp)"
  shows "mp \<le> DaysToHireStatistics.job_postings_number obj"
    and "DaysToHireStatistics.job_postings_number obj =
           int (postings_count db (DaysToHireStatistics.standard_job_id obj) None)"
proof -
  from assms obtain job n mn av mx
    where row: "(job, n, mn, av, mx) \<in> set (GLOBAL_STATS_QUERY db mp)"
      and obj: "obj = \<lparr> DaysToHireStatistics.standard_job_id = job, country_code = None,
              min_days = mn, avg_days = av, max_days = mx, job_postings_number = int n \<rparr>"
    by (auto simp: global_records_def calculate_global_statistics_def get_session_def)
  note total = stats_query_total [OF row [unfolded GLOBAL_STATS_QUERY_def]]
  from total(3) obj show "mp \<le> DaysToHireStatistics.job_postings_number obj" by simp
  from total(1) obj show "DaysToHireStatistics.job_postings_number obj =
           int (postings_count db (DaysToHireStatistics.standard_job_id obj) None)"
    by (simp add: global_partition_count)
qed

text \<open>The run on the postings of one partition above and one below the threshold.\<close>

lemma mixed_queries:
  "COUNTRY_STATS_QUERY mixed_db 5 = [((''job2'', Some ''DE''), 10, Some 19, Some 55, Some 91)]"
  "GLOBAL_STATS_QUERY mixed_db 5 = [(''job2'', 10, Some 19, Some 55, Some 91)]"
  by code_simp+

lemma mixed_records:
  "country_records mixed_db 5 =
     [\<lparr> DaysToHireStatistics.standard_job_id = ''job2'', country_code = Some ''DE'',
         min_days = Some 19, avg_days = Some 55, max_days = Some 91,
         job_postings_number = 10 \<rparr>]"
  "global_records mixed_db 5 =
     [\<lparr> DaysToHireStatistics.standard_job_id = ''job2'', country_code = None,
         min_days = Some 19, avg_days = Some 55, max_days = Some 91,
         job_postings_number = 10 \<rparr>]"
  by (simp_all add: country_records_def global_records_def calculate_country_statistics_def
      calculate_global_statistics_def get_session_def mixed_queries)

lemma mixed_run:
  "main None mixed_db 5 =
     (mixed_db\<lparr> tbl_days_to_hire_statistics :=
        [\<lparr> days_to_hire_statistics.standard_job_id = ''job2'', country_code = Some ''DE'',
            min_days = 19, avg_days = 55, max_days = 91, job_postings_number = 10 \<rparr>,
         \<lparr> days_to_hire_statistics.standard_job_id = ''job2'', country_code = None,
            min_days = 19, avg_days = 55, max_days = 91, job_postings_number = 10 \<rparr>] \<rparr>, None)"
  by (simp add: main_no_fault new_snapshot_halves mixed_records insert_row_def)

text \<open>
  Claim C5. A key of the summary table is a job with a country, or a job with the NULL
  country code of the global record; its count is the number of postings with a non-null
  \<open>days_to_hire\<close> of the job in that country, or of the job in all. After a completed run
  the summary table holds exactly one row for every key that has postings and whose count
  is at least \<open>min_postings\<close>, and none for every other key. No partition below the
  threshold makes a run fail: a run without a datastore fault completes exactly when the
  table accepts every computed record, and every computed record, country-specific or
  global, is that of a partition whose count is at least \<open>min_postings\<close>. In particular,
  when every count is below \<open>min_postings\<close> the run completes and leaves the table empty.
\<close>

theorem threshold_decides_records:
  "(main fault db mp = (db', None) \<longrightarrow>
      length [row \<leftarrow> tbl_days_to_hire_statistics db'.
                days_to_hire_statistics.standard_job_id row = job \<and>
                days_to_hire_statistics.country_code row = country]
        = (if 0 < postings_count db job country \<and> mp \<le> int (postings_count db job country)
           then 1 else 0))
   \<and> ((\<forall>job country. int (postings_count db job country) < mp) \<longrightarrow>
        main None db mp = (db\<lparr> tbl_days_to_hire_statistics := [] \<rparr>, None))
   \<and> ((\<exists>db'. main None db mp = (db', None)) \<longleftrightarrow>
        (\<forall>obj \<in> set (country_records db mp) \<union> set (global_records db mp).
           insert_row obj \<noteq> None))
   \<and> (\<forall>obj \<in> set (country_records db mp).
        mp \<le> DaysToHireStatistics.job_postings_number obj \<and>
        DaysToHireStatistics.job_postings_number obj =
          int (length [p \<leftarrow> tbl_job_posting db. days_to_hire p \<noteq> None \<and>
                 job_posting.standard_job_id p = DaysToHireStatistics.standard_job_id obj \<and>
                 job_posting.country_code p = DaysToHireStatistics.country_code obj]))
   \<and> (\<forall>obj \<in> set (global_records db mp).
        mp \<le> DaysToHireStatistics.job_postings_number obj \<and>
        DaysToHireStatistics.job_postings_number obj =
          int (postings_count db (DaysToHireStatistics.standard_job_id obj) None))"
proof (intro conjI impI ballI)
  assume run: "main fault db mp = (db', None)"
  have "length [row \<leftarrow> tbl_days_to_hire_statistics db'. row_key row = (job, country)]
      = (if (job, country) \<in> row_key ` set (tbl_days_to_hire_statistics db') then 1 else 0)"
    by (rule distinct_map_filter_length [OF completed_distinct [OF run]])
  then show "length [row \<leftarrow> tbl_days_to_hire_statistics db'.
                days_to_hire_statistics.standard_job_id row = job \<and>
                days_to_hire_statistics.country_code row = country]
        = (if 0 < postings_count db job country \<and> mp \<le> int (postings_count db job country)
           then 1 else 0)"
    unfolding completed_member [OF run] by (simp add: row_key_def)
next
  assume "\<forall>job country. int (postings_count db job country) < mp"
  then have "new_snapshot db mp = []"
    using below_threshold_empty [of db mp] by (simp add: new_snapshot_eq)
  then show "main None db mp = (db\<lparr> tbl_days_to_hire_statistics := [] \<rparr>, None)"
    by (simp add: main_no_fault)
next
  show "(\<exists>db'. main None db mp = (db', None)) \<longleftrightarrow>
        (\<forall>obj \<in> set (country_records db mp) \<union> set (global_records db mp).
           insert_row obj \<noteq> None)"
    unfolding main_completes_iff new_snapshot_halves by simp
next
  fix obj assume "obj \<in> set (country_records db mp)"
  then show "mp \<le> DaysToHireStatistics.job_postings_number obj"
    and "DaysToHireStatistics.job_postings_number obj =
          int (length [p \<leftarrow> tbl_job_posting db. days_to_hire p \<noteq> None \<and>
                 job_posting.standard_job_id p = DaysToHireStatistics.standard_job_id obj \<and>
                 job_posting.country_code p = DaysToHireStatistics.country_code obj])"
    by (rule country_records_threshold)+
next
  fix obj assume "obj \<in> set (global_records db mp)"
  then show "mp \<le> DaysToHireStatistics.job_postings_number obj"
    and "DaysToHireStatistics.job_postings_number obj =
          int (postings_count db (DaysToHireStatistics.standard_job_id obj) None)"
    by (rule global_records_threshold)+
qed

text \<open>
  On the example data the ten postings of \<open>job2\<close> in \<open>DE\<close> yield one row; the four postings
  of \<open>test_cli_skips_small_groups\<close> yield none, and that run completes. With both sets of
  postings in the fact table the run completes as well: the table accepts the two records
  of \<open>job2\<close>, and the four postings of \<open>job1\<close> in \<open>US\<close> leave no row.
\<close>

theorem threshold_decides_records_witness:
  "main None example_db 5 =
     (example_db\<lparr> tbl_days_to_hire_statistics :=
        [\<lparr> days_to_hire_statistics.standard_job_id = ''job2'', country_code = Some ''DE'',
            min_days = 19, avg_days = 55, max_days = 91, job_postings_number = 10 \<rparr>,
         \<lparr> days_to_hire_statistics.standard_job_id = ''job2'', country_code = None,
            min_days = 19, avg_days = 55, max_days = 91, job_postings_number = 10 \<rparr>] \<rparr>, None) \<and>
   postings_count example_db ''job2'' (Some ''DE'') = 10 \<and>
   length [row \<leftarrow>
             [\<lparr> days_to_hire_statistics.standard_job_id = ''job2'', country_code = Some ''DE'',
                 min_days = 19, avg_days = 55, max_days = 91, job_postings_number = 10 \<rparr>,
              \<lparr> days_to_hire_statistics.standard_job_id = ''job2'', country_code = None,
                 min_days = 19, avg_days = 55, max_days = 91, job_postings_number = 10 \<rparr>].
             days_to_hire_statistics.standard_job_id row = ''job2'' \<and>
             days_to_hire_statistics.country_code row = Some ''DE''] = 1 \<and>
   postings_count small_group_db ''job1'' (Some ''US'') = 4 \<and>
   main None small_group_db 5 = (small_group_db\<lparr> tbl_days_to_hire_statistics := [] \<rparr>, None) \<and>
   postings_count mixed_db ''job1'' (Some ''US'') = 4 \<and>
   postings_count mixed_db ''job2'' (Some ''DE'') = 10 \<and>
   (\<exists>db'. main None mixed_db 5 = (db', None)) \<and>
   length [row \<leftarrow> tbl_days_to_hire_statistics (fst (main None mixed_db 5)).
             days_to_hire_statistics.standard_job_id row = ''job1'' \<and>
             days_to_hire_statistics.country_code row = Some ''US''] = 0 \<and>
   length [row \<leftarrow> tbl_days_to_hire_statistics (fst (main None mixed_db 5)).
             days_to_hire_statistics.standard_job_id row = ''job2'' \<and>
             days_to_hire_statistics.country_code row = Some ''DE''] = 1"
proof -
  have below: "int (postings_count small_group_db job country) < 5" for job country
  proof -
    have "postings_count small_group_db job country \<le> length (tbl_job_posting small_group_db)"
      unfolding postings_count_def by (rule length_filter_le)
    also have "\<dots> = 4" by (simp add: small_group_db_def)
    finally show ?thesis by simp
  qed
  have c1: "postings_count example_db ''job2'' (Some ''DE'') = 10"
    by (simp add: postings_count_def example_db_def posting_def)
  have c2: "postings_count small_group_db ''job1'' (Some ''US'') = 4"
    by (simp add: postings_count_def small_group_db_def posting_def)
  have c3: "postings_count mixed_db ''job1'' (Some ''US'') = 4"
    by (simp add: postings_count_def mixed_db_def posting_def)
  have c4: "postings_count mixed_db ''job2'' (Some ''DE'') = 10"
    by (simp add: postings_count_def mixed_db_def posting_def)
  have accepted: "\<forall>obj \<in> set (country_records mixed_db 5) \<union> set (global_records mixed_db 5).
      insert_row obj \<noteq> None"
    by (simp add: mixed_records insert_row_def)
  note mixed1 = threshold_decides_records [where fault = None and db = mixed_db and mp = 5
      and db' = "fst (main None mixed_db 5)" and job = "''job1''" and country = "Some ''US''"]
  note mixed2 = threshold_decides_records [where fault = None and db = mixed_db and mp = 5
      and db' = "fst (main None mixed_db 5)" and job = "''job2''" and country = "Some ''DE''"]
  from mixed1 accepted have completes: "\<exists>db'. main None mixed_db 5 = (db', None)" by blast
  then have run: "main None mixed_db 5 = (fst (main None mixed_db 5), None)" by auto
  from mixed1 run c3 have r1:
    "length [row \<leftarrow> tbl_days_to_hire_statistics (fst (main None mixed_db 5)).
             days_to_hire_statistics.standard_job_id row = ''job1'' \<and>
             days_to_hire_statistics.country_code row = Some ''US''] = 0"
    by simp
  from mixed2 run c4 have r2:
    "length [row \<leftarrow> tbl_days_to_hire_statistics (fst (main None mixed_db 5)).
             days_to_hire_statistics.standard_job_id row = ''job2'' \<and>
             days_to_hire_statistics.country_code row = Some ''DE''] = 1"
    by simp
  have first: "main None example_db 5 =
     (example_db\<lparr> tbl_days_to_hire_statistics :=
        [\<lparr> days_to_hire_statistics.standard_job_id = ''job2'', country_code = Some ''DE'',
            min_days = 19, avg_days = 55, max_days = 91, job_postings_number = 10 \<rparr>,
         \<lparr> days_to_hire_statistics.standard_job_id = ''job2'', country_code = None,
            min_days = 19, avg_days = 55, max_days = 91, job_postings_number = 10 \<rparr>] \<rparr>, None) \<and>
   postings_count example_db ''job2'' (Some ''DE'') = 10 \<and>
   length [row \<leftarrow>
             [\<lparr> days_to_hire_statistics.standard_job_id = ''job2'', country_code = Some ''DE'',
                 min_days = 19, avg_days = 55, max_days = 91, job_postings_number = 10 \<rparr>,
              \<lparr> days_to_hire_statistics.standard_job_id = ''job2'', country_code = None,
                 min_days = 19, avg_days = 55, max_days = 91, job_postings_number = 10 \<rparr>].
             days_to_hire_statistics.standard_job_id row = ''job2'' \<and>
             days_to_hire_statistics.country_code row = Some ''DE''] = 1 \<and>
   postings_count small_group_db ''job1'' (Some ''US'') = 4 \<and>
   main None small_group_db 5 = (small_group_db\<lparr> tbl_days_to_hire_statistics := [] \<rparr>, None)"
    using example_run below c1 c2
      threshold_decides_records [where fault = None and db = example_db and mp = 5
        and job = "''job2''" and country = "Some ''DE''"]
      threshold_decides_records [where fault = None and db = small_group_db and mp = 5]
    by simp
  from first c3 c4 completes r1 r2 show ?thesis by blast
qed
section \<open>The statistics of a partition\<close>

text \<open>
  When no two postings of a partition have the same \<open>days_to_hire\<close>, every row of
  \<open>ranked\<close> joins with itself at most, and a query returns the percentiles of the
  partition and the mean of its rows outside both extreme deciles. For the country query
  this needs a country on every posting: a partition without country never joins.
\<close>

lemma comprehension_filter: "[f x. x \<leftarrow> xs, P x] = map f (filter P xs)"
  by (induction xs) simp_all

lemma grp_days_ranked_rows: "map (\<lambda>r. (grp r, days r)) (ranked_rows seen rows) = rows"
  by (induction rows arbitrary: seen) (simp_all add: Let_def)

lemma grp_days_ranked_cte: "map (\<lambda>r. (grp r, days r)) (ranked_cte rows) = rows"
  by (simp add: ranked_cte_def grp_days_ranked_rows)

lemma filter_distinct_key:
  "distinct (map f xs) \<Longrightarrow> x \<in> set xs \<Longrightarrow> [y \<leftarrow> xs. f y = f x] = [x]"
proof (induction xs)
  case Nil
  then show ?case by simp
next
  case (Cons a xs)
  show ?case
  proof (cases "x = a")
    case True
    from Cons.prems(1) have "f a \<notin> f ` set xs" by simp
    then have "\<forall>y\<in>set xs. f y \<noteq> f a" by (metis imageI)
    then have "[y \<leftarrow> xs. f y = f a] = []" by (simp add: filter_empty_conv)
    with True show ?thesis by simp
  next
    case False
    with Cons.prems have "x \<in> set xs" by simp
    moreover from this Cons.prems(1) have "f a \<noteq> f x" by auto
    ultimately show ?thesis using Cons by simp
  qed
qed

lemma LEFT_JOIN_single:
  assumes "\<And>r. r \<in> set rs \<Longrightarrow> [f \<leftarrow> fs. cond r f] = (if Q r then [r] else [])"
  shows "LEFT_JOIN rs fs cond = map (\<lambda>r. (r, if Q r then Some r else None)) rs"
  using assms by (induction rs) (simp_all add: LEFT_JOIN_def)

lemma joined_rows_distinct:
  assumes "distinct rows"
    and "\<And>k k'. k \<in> fst ` set rows \<Longrightarrow> key_eq k k' \<longleftrightarrow> k = k'"
  shows "joined_rows key_eq rows =
           map (\<lambda>r. (r, if decile_low r > 1 \<and> decile_high r > 1 then Some r else None))
             (ranked_cte rows)"
proof -
  let ?rs = "ranked_cte rows"
  have d: "distinct (map (\<lambda>r. (grp r, days r)) ?rs)"
    using assms(1) by (simp only: grp_days_ranked_cte)
  have "[f \<leftarrow> filtered_cte ?rs. key_eq (grp r) (grp f) \<and> days r = days f]
      = (if decile_low r > 1 \<and> decile_high r > 1 then [r] else [])" if r: "r \<in> set ?rs" for r
  proof -
    from r have "grp r \<in> fst ` set rows" using grp_ranked_cte [of rows] by blast
    then have e: "(\<lambda>f. key_eq (grp r) (grp f) \<and> days r = days f)
        = (\<lambda>f. (grp f, days f) = (grp r, days r))"
      using assms(2) by auto
    have "[f \<leftarrow> filtered_cte ?rs. key_eq (grp r) (grp f) \<and> days r = days f]
        = [f \<leftarrow> [f \<leftarrow> ?rs. decile_low f > 1 \<and> decile_high f > 1]. (grp f, days f) = (grp r, days r)]"
      by (simp only: e filtered_cte_def)
    also have "\<dots>
        = [f \<leftarrow> [f \<leftarrow> ?rs. (grp f, days f) = (grp r, days r)]. decile_low f > 1 \<and> decile_high f > 1]"
      by (simp only: filter_filter conj_commute)
    also have "[f \<leftarrow> ?rs. (grp f, days f) = (grp r, days r)] = [r]"
      by (rule filter_distinct_key [OF d r])
    finally show ?thesis by simp
  qed
  then show ?thesis unfolding joined_rows_def Let_def by (rule LEFT_JOIN_single)
qed

lemma AVG_cong_values: "[x. Some x \<leftarrow> a] = [x. Some x \<leftarrow> b] \<Longrightarrow> AVG a = AVG b"
  by (simp add: AVG_def)

lemma AVG_kept:
  "AVG (map (\<lambda>r. if Q r then Some (f r) else None) xs) = AVG (map Some (map f (filter Q xs)))"
proof (rule AVG_cong_values)
  have a: "[x. Some x \<leftarrow> map (\<lambda>r. if Q r then Some (f r) else None) xs] = map f (filter Q xs)"
    by (induction xs) simp_all
  have b: "[x. Some x \<leftarrow> map Some ys] = ys" for ys :: "int list"
    by (induction ys) simp_all
  show "[x. Some x \<leftarrow> map (\<lambda>r. if Q r then Some (f r) else None) xs]
      = [x. Some x \<leftarrow> map Some (map f (filter Q xs))]"
    by (simp only: a b)
qed

lemma stats_query_distinct_values:
  assumes "distinct rows"
    and "\<And>k k'. k \<in> fst ` set rows \<Longrightarrow> key_eq k k' \<longleftrightarrow> k = k'"
    and "(k, n, mn, av, mx) \<in> set (stats_query key_eq order_key rows mp)"
  shows "mn = spec_percentile (1 / 10) rows k"
    and "mx = spec_percentile (9 / 10) rows k"
    and "av = spec_avg_days rows k"
proof -
  let ?rs = "ranked_cte rows"
  let ?h = "\<lambda>r. (r, if decile_low r > 1 \<and> decile_high r > 1 then Some r else None)"
  from assms(3) obtain g where
    row: "(k, n, mn, av, mx) = group_row (joined_rows key_eq rows) g"
    by (rule stats_query_member)
  then have g: "g = (k, n)" by (simp add: group_row_def Let_def prod_eq_iff)
  have n: "n = partition_count rows k" using assms(3) by (rule stats_query_total)
  have members: "[(r, f) \<leftarrow> joined_rows key_eq rows. (grp r, total_count r) = g]
      = map ?h [r \<leftarrow> ?rs. grp r = k]"
  proof -
    have "[(r, f) \<leftarrow> map ?h ?rs. (grp r, total_count r) = g]
        = map ?h [r \<leftarrow> ?rs. (grp r, total_count r) = g]"
      by (simp add: filter_map comp_def)
    also have "[r \<leftarrow> ?rs. (grp r, total_count r) = g] = [r \<leftarrow> ?rs. grp r = k]"
      by (rule filter_cong) (auto simp: g n total_count_ranked_cte)
    finally show ?thesis by (simp only: joined_rows_distinct [OF assms(1,2)])
  qed
  have vs: "map days [r \<leftarrow> ?rs. grp r = k] = [snd y. y \<leftarrow> rows, fst y = k]"
  proof -
    have "[snd y. y \<leftarrow> map (\<lambda>r. (grp r, days r)) ?rs, fst y = k] = map days [r \<leftarrow> ?rs. grp r = k]"
      by (simp add: comprehension_filter filter_map comp_def)
    then show ?thesis by (simp only: grp_days_ranked_cte)
  qed
  from row show "mn = spec_percentile (1 / 10) rows k"
    unfolding group_row_def Let_def members spec_percentile_def
    by (simp add: comp_def vs)
  from row show "mx = spec_percentile (9 / 10) rows k"
    unfolding group_row_def Let_def members spec_percentile_def
    by (simp add: comp_def vs)
  have kept: "spec_kept rows k = map days [r \<leftarrow> [r \<leftarrow> ?rs. grp r = k]. decile_low r > 1 \<and> decile_high r > 1]"
    by (simp add: spec_kept_def comprehension_filter filtered_cte_def conj_commute)
  from row have "av = AVG (map (\<lambda>r. if decile_low r > 1 \<and> decile_high r > 1 then Some (days r) else None)
      [r \<leftarrow> ?rs. grp r = k])"
    unfolding group_row_def Let_def members
    by (simp add: comp_def if_distrib [of "map_option days"] cong: if_cong)
  then show "av = spec_avg_days rows k"
    unfolding spec_avg_days_def kept AVG_kept .
qed

lemma global_query_distinct_values:
  assumes "distinct (job_posting_rows job_posting.standard_job_id (tbl_job_posting db))"
    and "(job, n, mn, av, mx) \<in> set (GLOBAL_STATS_QUERY db mp)"
  shows "mn = spec_percentile (1 / 10)
                (job_posting_rows job_posting.standard_job_id (tbl_job_posting db)) job"
    and "mx = spec_percentile (9 / 10)
                (job_posting_rows job_posting.standard_job_id (tbl_job_posting db)) job"
    and "av = spec_avg_days
                (job_posting_rows job_posting.standard_job_id (tbl_job_posting db)) job"
  using assms(2) unfolding GLOBAL_STATS_QUERY_def
  by (rule stats_query_distinct_values [OF assms(1), rotated], simp)+

lemma country_query_distinct_values:
  assumes "distinct (job_posting_rows
                       (\<lambda>p. (job_posting.standard_job_id p, job_posting.country_code p))
                       (tbl_job_posting db))"
    and "\<And>p. p \<in> set (tbl_job_posting db) \<Longrightarrow> job_posting.country_code p \<noteq> None"
    and "(k, n, mn, av, mx) \<in> set (COUNTRY_STATS_QUERY db mp)"
  shows "mn = spec_percentile (1 / 10)
                (job_posting_rows
                   (\<lambda>p. (job_posting.standard_job_id p, job_posting.country_code p))
                   (tbl_job_posting db)) k"
    and "mx = spec_percentile (9 / 10)
                (job_posting_rows
                   (\<lambda>p. (job_posting.standard_job_id p, job_posting.country_code p))
                   (tbl_job_posting db)) k"
    and "av = spec_avg_days
                (job_posting_rows
                   (\<lambda>p. (job_posting.standard_job_id p, job_posting.country_code p))
                   (tbl_job_posting db)) k"
proof -
  let ?rows = "job_posting_rows
                   (\<lambda>p. (job_posting.standard_job_id p, job_posting.country_code p))
                   (tbl_job_posting db)"
  have country: "snd k \<noteq> None" if "k \<in> fst ` set ?rows" for k
    using that assms(2) by (auto simp: job_posting_rows_def)
  have eq: "(case k of (j, c) \<Rightarrow> \<lambda>(j', c'). j = j' \<and> sql_eq c c') k' \<longleftrightarrow> k = k'"
    if "k \<in> fst ` set ?rows" for k k'
    using country [OF that] by (cases k; cases k'; cases "snd k'") auto
  note r = stats_query_distinct_values [OF assms(1) eq assms(3) [unfolded COUNTRY_STATS_QUERY_def]]
  from r(1) show "mn = spec_percentile (1 / 10) ?rows k" .
  from r(2) show "mx = spec_percentile (9 / 10) ?rows k" .
  from r(3) show "av = spec_avg_days ?rows k" .
qed

subsection \<open>Duplicate values\<close>

text \<open>
  Claim C3 at five postings of one job and country with \<open>days_to_hire\<close> 1, 2, 2, 3, 4. The
  10th and 90th percentiles of the partition are 7/5 and 18/5. The query takes its
  percentiles over the joined rows, where the join on \<open>days_to_hire\<close> repeats both rows of
  value 2, and returns 8/5 and 17/5.
\<close>

theorem duplicates_percentiles:
  "COUNTRY_STATS_QUERY duplicates_db 5 =
     [((''job5'', Some ''US''), 5, Some (8 / 5), Some (11 / 5), Some (17 / 5))] \<and>
   spec_percentile (1 / 10)
     (job_posting_rows (\<lambda>p. (job_posting.standard_job_id p, job_posting.country_code p))
        (tbl_job_posting duplicates_db)) (''job5'', Some ''US'') = Some (7 / 5) \<and>
   spec_percentile (9 / 10)
     (job_posting_rows (\<lambda>p. (job_posting.standard_job_id p, job_posting.country_code p))
        (tbl_job_posting duplicates_db)) (''job5'', Some ''US'') = Some (18 / 5)"
  by code_simp

text \<open>
  Claim C4 at the same postings. The rows outside both extreme deciles are 2, 2, 3, with
  mean 7/3. The query averages over the joined rows, where each of the two rows of value 2
  meets both kept rows of value 2, and returns 11/5.
\<close>

theorem duplicates_average:
  "map (\<lambda>(k, n, mn, av, mx). av) (COUNTRY_STATS_QUERY duplicates_db 5) = [Some (11 / 5)] \<and>
   spec_kept
     (job_posting_rows (\<lambda>p. (job_posting.standard_job_id p, job_posting.country_code p))
        (tbl_job_posting duplicates_db)) (''job5'', Some ''US'') = [2, 2, 3] \<and>
   spec_avg_days
     (job_posting_rows (\<lambda>p. (job_posting.standard_job_id p, job_posting.country_code p))
        (tbl_job_posting duplicates_db)) (''job5'', Some ''US'') = Some (7 / 3)"
  by code_simp

end
